theory Spec2Isabelle
  imports Complex_Main "HOL-Library.Sublist"
begin

section \<open>Errors (errors.js)\<close>

text \<open>
  The four error classes of \<^verbatim>\<open>errors.js\<close>. Each carries its message and the location the
  constructor receives: line and column for lexer and parser errors, the line for semantic
  errors (the analyser always passes \<^verbatim>\<open>null\<close> as the column), an optional line for runtime
  errors.
\<close>

datatype MasalaError =
    LexerError string nat nat
  | ParserError string nat nat
  | SemanticError string nat
  | RuntimeError string "nat option"

text \<open>The class label that \<^verbatim>\<open>toString\<close> prints in front of the message.\<close>

fun error_type :: "MasalaError \<Rightarrow> string" where
  "error_type (LexerError m l c) = ''Galti ho gayi! Lexer Error''"
| "error_type (ParserError m l c) = ''Arrey bhai! Parser Error''"
| "error_type (SemanticError m l) = ''Kya kar rahe ho! Semantic Error''"
| "error_type (RuntimeError m l) = ''Dhoom machale! Runtime Error''"

subsection \<open>ErrorMessages\<close>

text \<open>The single quote that the messages put around names.\<close>

definition sq :: string where
  "sq = [CHR 0x27]"

definition UNEXPECTED_CHARACTER :: "char \<Rightarrow> string" where
  "UNEXPECTED_CHARACTER c = ''Yeh character kya hai bhai? '' @ sq @ [c] @ sq @ '' samajh nahi aaya''"

definition UNTERMINATED_STRING :: string where
  "UNTERMINATED_STRING = ''String khatam nahi hui - closing quote lagao!''"

definition INVALID_NUMBER :: "string \<Rightarrow> string" where
  "INVALID_NUMBER num = ''Yeh number galat hai: '' @ sq @ num @ sq"

definition EXPECTED_ACTION :: string where
  "EXPECTED_ACTION = ''Program start karo 'Chal bhai suru kar' se - yeh toh basic hai!''"

definition EXPECTED_PAISA_VASOOL :: string where
  "EXPECTED_PAISA_VASOOL = ''Program end karo 'bas khatam karo' se - ending toh chahiye!''"

definition EXPECTED_IDENTIFIER :: string where
  "EXPECTED_IDENTIFIER = ''Yahan variable ka naam chahiye''"

definition EXPECTED_EXPRESSION :: string where
  "EXPECTED_EXPRESSION = ''Yahan koi expression chahiye''"

definition EXPECTED_LPAREN :: string where
  "EXPECTED_LPAREN = sq @ ''('' @ sq @ '' lagana bhool gaye kya?''"

definition EXPECTED_RPAREN :: string where
  "EXPECTED_RPAREN = sq @ '')'' @ sq @ '' lagana bhool gaye kya?''"

definition EXPECTED_LBRACE :: string where
  "EXPECTED_LBRACE = sq @ ''{'' @ sq @ '' lagana bhool gaye kya?''"

definition EXPECTED_RBRACE :: string where
  "EXPECTED_RBRACE = sq @ ''}'' @ sq @ '' lagana bhool gaye kya?''"

definition EXPECTED_EQUALS :: string where
  "EXPECTED_EQUALS = sq @ ''='' @ sq @ '' lagana bhool gaye kya?''"

definition INVALID_ASSIGNMENT_TARGET :: string where
  "INVALID_ASSIGNMENT_TARGET =
     ''Assignment ka target galat hai - sirf variables mein assign kar sakte ho''"

definition UNDEFINED_VARIABLE :: "string \<Rightarrow> string" where
  "UNDEFINED_VARIABLE name =
     ''Variable '' @ sq @ name @ sq @ '' define nahi hua hai - pehle 'maan lo' karo''"

definition UNDEFINED_FUNCTION :: "string \<Rightarrow> string" where
  "UNDEFINED_FUNCTION name = ''Function '' @ sq @ name @ sq @ '' define nahi hua hai''"

definition ALREADY_DEFINED :: "string \<Rightarrow> string" where
  "ALREADY_DEFINED name =
     sq @ name @ sq @ '' toh pehle se define hai - duplicate mat karo!''"

text \<open>Decimal rendering of a count, as a template literal prints it.\<close>

fun digits_of :: "nat \<Rightarrow> nat \<Rightarrow> string" where
  "digits_of 0 n = []"
| "digits_of (Suc k) n =
     (if n < 10 then [char_of (48 + n)]
      else digits_of k (n div 10) @ [char_of (48 + n mod 10)])"

definition nat_to_string :: "nat \<Rightarrow> string" where
  "nat_to_string n = digits_of (Suc n) n"

definition WRONG_ARG_COUNT :: "string \<Rightarrow> nat \<Rightarrow> nat \<Rightarrow> string" where
  "WRONG_ARG_COUNT name expected got =
     ''Function '' @ sq @ name @ sq @ '' ko '' @ nat_to_string expected
       @ '' arguments chahiye, tumne '' @ nat_to_string got @ '' diye''"

definition RETURN_OUTSIDE_FUNCTION :: string where
  "RETURN_OUTSIDE_FUNCTION = sq @ ''dialogue wapas do'' @ sq @ '' sirf function ke andar use karo''"

definition DIVISION_BY_ZERO :: string where
  "DIVISION_BY_ZERO = ''Zero se divide? Yeh toh impossible hai bhai!''"

definition NOT_A_FUNCTION :: "string \<Rightarrow> string" where
  "NOT_A_FUNCTION name = sq @ name @ sq @ '' function nahi hai - call mat karo''"

definition NOT_A_NUMBER :: "string \<Rightarrow> string" where
  "NOT_A_NUMBER op = sq @ op @ sq @ '' operation ke liye numbers chahiye''"

definition INVALID_OPERAND :: "string \<Rightarrow> string" where
  "INVALID_OPERAND op = sq @ op @ sq @ '' ke saath yeh operands use nahi kar sakte''"

section \<open>Tokens (tokens.js)\<close>

datatype TokenType =
    ACTION | PAISA_VASOOL | MAAN_LO | AGAR_KISMAT_RAHI | NAHI_TO | WARNA
  | JAB_TAK_HAI_JAAN | BREAK | CLIMAX | DIALOGUE_WAPAS_DO | EK_BAAT_BATAUN
  | NUMBER | STRING | SACH | GALAT | KHAALI | IDENTIFIER
  | PLUS | MINUS | STAR | SLASH | PERCENT
  | EQUAL_EQUAL | BANG_EQUAL | LESS | GREATER | LESS_EQUAL | GREATER_EQUAL
  | AND | OR | BANG | EQUAL
  | LPAREN | RPAREN | LBRACE | RBRACE | COMMA | COLON
  | EOF | NEWLINE
  | INHERITED string

text \<open>
  The last constructor is not a member of \<^verbatim>\<open>TokenType\<close>. The lexer looks an identifier
  up with \<^verbatim>\<open>Keywords[text.toLowerCase()]\<close>, and for a name that the object inherits from
  \<^verbatim>\<open>Object.prototype\<close> the lookup answers the inherited property, which then becomes
  the token's type: \<open>INHERITED name\<close> stands for that object.
\<close>

text \<open>
  The \<^verbatim>\<open>Keywords\<close> object, in its insertion order. It holds the spellings
  \<^verbatim>\<open>Chal bhai suru kar\<close> and \<^verbatim>\<open>bas khatam karo\<close> for the program boundaries and
  no others.
\<close>

definition Keywords :: "(string \<times> TokenType) list" where
  "Keywords =
    [(''Chal bhai suru kar'', ACTION),
     (''bas khatam karo'', PAISA_VASOOL),
     (''maan lo'', MAAN_LO),
     (''agar kismat rahi'', AGAR_KISMAT_RAHI),
     (''nahi to'', NAHI_TO),
     (''warna'', WARNA),
     (''jab tak hai jaan'', JAB_TAK_HAI_JAAN),
     (''me bahar ja raha hu'', BREAK),
     (''climax'', CLIMAX),
     (''dialogue wapas do'', DIALOGUE_WAPAS_DO),
     (''ek baat bataun:'', EK_BAAT_BATAUN),
     (''sach'', SACH),
     (''galat'', GALAT),
     (''khaali'', KHAALI)]"

definition SingleCharTokens :: "(char \<times> TokenType) list" where
  "SingleCharTokens =
    [(CHR ''+'', PLUS), (CHR ''-'', MINUS), (CHR ''*'', STAR), (CHR ''/'', SLASH),
     (CHR ''%'', PERCENT), (CHR ''('', LPAREN), (CHR '')'', RPAREN), (CHR ''{'', LBRACE),
     (CHR ''}'', RBRACE), (CHR '','', COMMA), (CHR '':'', COLON)]"

section \<open>The numbers of the host\<close>

text \<open>
  The language's numbers are the numbers of JavaScript, and the code computes with them
  through the host's own operations. Neither is code of this repository; both are
  parameters of the model. The type variable \<open>'n\<close> is the type of the host's numbers and a
  value of the record below holds the operations the code uses: \<^verbatim>\<open>parseFloat\<close>,
  \<^verbatim>\<open>isNaN\<close>, \<^verbatim>\<open>toString()\<close>, the arithmetic operators, unary minus, the four
  comparisons, strict equality \<^verbatim>\<open>===\<close> on two numbers, and the number that the
  literal \<^verbatim>\<open>0\<close> of the code denotes.
\<close>

record 'n Host =
  h_parseFloat :: "string \<Rightarrow> 'n"
  h_isNaN :: "'n \<Rightarrow> bool"
  h_toString :: "'n \<Rightarrow> string"
  h_add :: "'n \<Rightarrow> 'n \<Rightarrow> 'n"
  h_sub :: "'n \<Rightarrow> 'n \<Rightarrow> 'n"
  h_mul :: "'n \<Rightarrow> 'n \<Rightarrow> 'n"
  h_div :: "'n \<Rightarrow> 'n \<Rightarrow> 'n"
  h_rem :: "'n \<Rightarrow> 'n \<Rightarrow> 'n"
  h_neg :: "'n \<Rightarrow> 'n"
  h_lt :: "'n \<Rightarrow> 'n \<Rightarrow> bool"
  h_gt :: "'n \<Rightarrow> 'n \<Rightarrow> bool"
  h_le :: "'n \<Rightarrow> 'n \<Rightarrow> bool"
  h_ge :: "'n \<Rightarrow> 'n \<Rightarrow> bool"
  h_eq :: "'n \<Rightarrow> 'n \<Rightarrow> bool"
  h_zero :: "'n"

text \<open>A token's literal is \<^verbatim>\<open>null\<close>, a number of the host or a string.\<close>

datatype 'n Literal_value = NoLiteral | NumberLiteral 'n | StringLiteral string

record 'n Token =
  ttype :: TokenType
  lexeme :: string
  literal :: "'n Literal_value"
  tline :: nat
  tcolumn :: nat

section \<open>Lexer (lexer.js)\<close>

text \<open>
  The source is a list of characters (ASCII text; one \<^typ>\<open>char\<close> per code unit).
  The lexer object is a record of its fields, and every method takes the record and
  returns the updated one.
\<close>

record 'n Lexer =
  source :: string
  tokens :: "'n Token list"
  start :: nat
  current :: nat
  line :: nat
  column :: nat
  startColumn :: nat

definition new_Lexer :: "string \<Rightarrow> 'n Lexer" where
  "new_Lexer src =
     \<lparr>source = src, tokens = [], start = 0, current = 0, line = 1, column = 1, startColumn = 1\<rparr>"

text \<open>\<^verbatim>\<open>String.prototype.slice\<close> for indices that are not negative.\<close>

definition slice :: "string \<Rightarrow> nat \<Rightarrow> nat \<Rightarrow> string" where
  "slice s a b = take (min b (length s) - a) (drop a s)"

text \<open>\<^verbatim>\<open>toLowerCase\<close> on ASCII text.\<close>

definition toLowerCase_char :: "char \<Rightarrow> char" where
  "toLowerCase_char c =
     (if 65 \<le> (of_char c :: nat) \<and> (of_char c :: nat) \<le> 90
      then char_of ((of_char c :: nat) + 32) else c)"

definition toLowerCase :: "string \<Rightarrow> string" where
  "toLowerCase s = map toLowerCase_char s"

definition isAtEnd :: "'n Lexer \<Rightarrow> bool" where
  "isAtEnd L = (current L \<ge> length (source L))"

text \<open>
  \<^verbatim>\<open>advance\<close> moves one character on; the character it returns is the one under
  \<^verbatim>\<open>current\<close> before the move, which callers read with \<open>peek\<close>.
\<close>

definition advance :: "'n Lexer \<Rightarrow> 'n Lexer" where
  "advance L = L\<lparr>current := current L + 1, column := column L + 1\<rparr>"

definition peek :: "'n Lexer \<Rightarrow> char" where
  "peek L = (if isAtEnd L then CHR 0x00 else source L ! current L)"

definition peekNext :: "'n Lexer \<Rightarrow> char" where
  "peekNext L =
     (if current L + 1 \<ge> length (source L) then CHR 0x00 else source L ! (current L + 1))"

text \<open>\<^verbatim>\<open>match(expected)\<close>: whether it matched, and the lexer after it.\<close>

definition match :: "char \<Rightarrow> 'n Lexer \<Rightarrow> bool \<times> 'n Lexer" where
  "match expected L =
     (if isAtEnd L then (False, L)
      else if source L ! current L \<noteq> expected then (False, L)
      else (True, L\<lparr>current := current L + 1, column := column L + 1\<rparr>))"

definition isDigit :: "char \<Rightarrow> bool" where
  "isDigit c = (48 \<le> (of_char c :: nat) \<and> (of_char c :: nat) \<le> 57)"

definition isAlpha :: "char \<Rightarrow> bool" where
  "isAlpha c =
     ((97 \<le> (of_char c :: nat) \<and> (of_char c :: nat) \<le> 122)
      \<or> (65 \<le> (of_char c :: nat) \<and> (of_char c :: nat) \<le> 90)
      \<or> c = CHR ''_'')"

definition isAlphaNumeric :: "char \<Rightarrow> bool" where
  "isAlphaNumeric c = (isAlpha c \<or> isDigit c)"

definition addToken :: "TokenType \<Rightarrow> 'n Literal_value \<Rightarrow> 'n Lexer \<Rightarrow> 'n Lexer" where
  "addToken t lit L =
     L\<lparr>tokens := tokens L @
        [\<lparr>ttype = t, lexeme = slice (source L) (start L) (current L), literal = lit,
          tline = line L, tcolumn = startColumn L\<rparr>]\<rparr>"

subsection \<open>Whitespace and comments\<close>

function comment_loop :: "'n Lexer \<Rightarrow> 'n Lexer" where
  "comment_loop L =
     (if peek L \<noteq> CHR 0x0A \<and> \<not> isAtEnd L then comment_loop (advance L) else L)"
  by pat_completeness auto
termination
  by (relation "measure (\<lambda>L. length (source L) - current L)")
     (auto simp: advance_def isAtEnd_def)

declare comment_loop.simps [simp del]

lemma comment_loop_source [simp]: "source (comment_loop L) = source L"
  by (induction L rule: comment_loop.induct)
     (subst comment_loop.simps, simp add: advance_def)

lemma comment_loop_current: "current L \<le> current (comment_loop L)"
proof (induction L rule: comment_loop.induct)
  case (1 L)
  show ?case
  proof (cases "peek L \<noteq> CHR 0x0A \<and> \<not> isAtEnd L")
    case True
    then have "current (advance L) \<le> current (comment_loop L)"
      using 1 by (subst comment_loop.simps) simp
    then show ?thesis by (simp add: advance_def)
  next
    case False
    then show ?thesis by (subst comment_loop.simps) auto
  qed
qed

lemma comment_loop_progress:
  assumes "peek L \<noteq> CHR 0x0A" and "\<not> isAtEnd L"
  shows "current L < current (comment_loop L)"
proof -
  have "comment_loop L = comment_loop (advance L)"
    using assms by (subst comment_loop.simps) simp
  moreover have "current (advance L) \<le> current (comment_loop (advance L))"
    by (rule comment_loop_current)
  ultimately show ?thesis by (simp add: advance_def)
qed

text \<open>
  \<^verbatim>\<open>skipWhitespaceAndComments\<close>: the loop over the characters, with the position it
  started from; it answers whether anything was skipped.
\<close>

function skip_loop :: "nat \<Rightarrow> 'n Lexer \<Rightarrow> bool \<times> 'n Lexer" where
  "skip_loop startPos L =
     (if isAtEnd L then (current L \<noteq> startPos, L)
      else if peek L = CHR '' '' \<or> peek L = CHR 0x09 \<or> peek L = CHR 0x0D
        then skip_loop startPos (advance L)
      else if peek L = CHR 0x0A
        then skip_loop startPos (advance (L\<lparr>line := line L + 1, column := 0\<rparr>))
      else if peek L = CHR ''/''
        then (if peekNext L = CHR ''/'' then skip_loop startPos (comment_loop L)
              else (current L \<noteq> startPos, L))
      else (current L \<noteq> startPos, L))"
  by pat_completeness auto
termination
proof (relation "measure (\<lambda>(p, L). length (source L) - current L)", goal_cases)
  case 1
  show ?case by simp
next
  case (2 startPos L)
  then show ?case by (simp add: advance_def isAtEnd_def)
next
  case (3 startPos L)
  then show ?case by (simp add: advance_def isAtEnd_def)
next
  case (4 startPos L)
  then have "current L < current (comment_loop L)"
    by (intro comment_loop_progress) auto
  with 4 show ?case by (simp add: isAtEnd_def)
qed

declare skip_loop.simps [simp del]

definition skipWhitespaceAndComments :: "'n Lexer \<Rightarrow> bool \<times> 'n Lexer" where
  "skipWhitespaceAndComments L = skip_loop (current L) L"

subsection \<open>Multi-word keywords\<close>

text \<open>
  \<^verbatim>\<open>Object.keys(Keywords).sort((a, b) => b.length - a.length)\<close>: a stable sort by
  descending length. The entries are sorted together with their token types, which is what
  the later lookup \<^verbatim>\<open>Keywords[keyword]\<close> finds, the keys being distinct.
\<close>

definition sortedKeywords :: "(string \<times> TokenType) list" where
  "sortedKeywords = sort_key (\<lambda>kw. - int (length (fst kw))) Keywords"

primrec advance_n :: "nat \<Rightarrow> 'n Lexer \<Rightarrow> 'n Lexer" where
  "advance_n 0 L = L"
| "advance_n (Suc n) L = advance_n n (advance L)"

text \<open>\<^verbatim>\<open>/[!:]$/.test(keyword)\<close>\<close>

definition endsWithSpecial :: "string \<Rightarrow> bool" where
  "endsWithSpecial keyword = (keyword \<noteq> [] \<and> (last keyword = CHR ''!'' \<or> last keyword = CHR '':''))"

fun matchKeyword_loop :: "(string \<times> TokenType) list \<Rightarrow> 'n Lexer \<Rightarrow> bool \<times> 'n Lexer" where
  "matchKeyword_loop [] L = (False, L)"
| "matchKeyword_loop ((keyword, t) # rest) L =
     (if prefix (toLowerCase keyword) (toLowerCase (drop (current L) (source L)))
      then (let endPos = current L + length keyword in
            if endsWithSpecial keyword \<or> endPos \<ge> length (source L)
               \<or> \<not> isAlphaNumeric (source L ! endPos)
            then (True, addToken t NoLiteral (advance_n (length keyword) L))
            else matchKeyword_loop rest L)
      else matchKeyword_loop rest L)"

definition matchKeyword :: "'n Lexer \<Rightarrow> bool \<times> 'n Lexer" where
  "matchKeyword L = matchKeyword_loop sortedKeywords L"

subsection \<open>String literals\<close>

function string_loop :: "'n Lexer \<Rightarrow> 'n Lexer" where
  "string_loop L =
     (if peek L \<noteq> CHR 0x22 \<and> \<not> isAtEnd L
      then (let L1 = (if peek L = CHR 0x0A then L\<lparr>line := line L + 1, column := 0\<rparr> else L);
                L2 = (if peek L1 = CHR 0x5C then advance L1 else L1)
            in string_loop (advance L2))
      else L)"
  by pat_completeness auto
termination
  by (relation "measure (\<lambda>L. length (source L) - current L)")
     (auto simp: advance_def isAtEnd_def peek_def Let_def)

declare string_loop.simps [simp del]

text \<open>
  \<^verbatim>\<open>value.replace(/\\x/g, c)\<close> for a pattern of a backslash and one more character:
  every match, left to right, none overlapping.
\<close>

fun replace_escape :: "char \<Rightarrow> char \<Rightarrow> string \<Rightarrow> string" where
  "replace_escape x c (a # b # rest) =
     (if a = CHR 0x5C \<and> b = x then c # replace_escape x c rest
      else a # replace_escape x c (b # rest))"
| "replace_escape x c s = s"

definition process_escapes :: "string \<Rightarrow> string" where
  "process_escapes v =
     replace_escape (CHR 0x5C) (CHR 0x5C)
       (replace_escape (CHR 0x22) (CHR 0x22)
         (replace_escape (CHR ''r'') (CHR 0x0D)
           (replace_escape (CHR ''t'') (CHR 0x09)
             (replace_escape (CHR ''n'') (CHR 0x0A) v))))"

definition string_lit :: "'n Lexer \<Rightarrow> MasalaError + 'n Lexer" where
  "string_lit L =
     (let startLine = line L; startCol = startColumn L; L1 = string_loop L in
      if isAtEnd L1 then Inl (LexerError UNTERMINATED_STRING startLine startCol)
      else (let L2 = advance L1;
                v = slice (source L2) (start L2 + 1) (current L2 - 1)
            in Inr (addToken STRING (StringLiteral (process_escapes v)) L2)))"

subsection \<open>Number literals\<close>

function number_loop :: "'n Lexer \<Rightarrow> 'n Lexer" where
  "number_loop L = (if isDigit (peek L) then number_loop (advance L) else L)"
  by pat_completeness auto
termination
  by (relation "measure (\<lambda>L. length (source L) - current L)")
     (auto simp: advance_def isAtEnd_def peek_def isDigit_def split: if_splits)

declare number_loop.simps [simp del]

text \<open>
  \<^verbatim>\<open>parseFloat\<close> and \<^verbatim>\<open>isNaN\<close> are the host's.
\<close>

definition number :: "'n Host \<Rightarrow> 'n Lexer \<Rightarrow> MasalaError + 'n Lexer" where
  "number host L =
     (let L1 = number_loop L;
          L2 = (if peek L1 = CHR ''.'' \<and> isDigit (peekNext L1) then number_loop (advance L1) else L1);
          lex = slice (source L2) (start L2) (current L2);
          v = h_parseFloat host lex
      in if h_isNaN host v
         then Inl (LexerError (INVALID_NUMBER lex) (line L2) (startColumn L2))
         else Inr (addToken NUMBER (NumberLiteral v) L2))"

subsection \<open>Identifiers\<close>

function identifier_loop :: "'n Lexer \<Rightarrow> 'n Lexer" where
  "identifier_loop L = (if isAlphaNumeric (peek L) then identifier_loop (advance L) else L)"
  by pat_completeness auto
termination
  by (relation "measure (\<lambda>L. length (source L) - current L)")
     (auto simp: advance_def isAtEnd_def peek_def isAlphaNumeric_def isAlpha_def isDigit_def
           split: if_splits)

declare identifier_loop.simps [simp del]

text \<open>
  The names that the \<^verbatim>\<open>Keywords\<close> object inherits and that a lowercased identifier can
  spell: the other inherited names contain a capital letter.
\<close>

definition inherited_names :: "string list" where
  "inherited_names = [''constructor'', ''__proto__'']"

text \<open>
  \<^verbatim>\<open>Keywords[text.toLowerCase()] || TokenType.IDENTIFIER\<close>: an own entry of the table,
  else an inherited property, else \<open>IDENTIFIER\<close>; only an \<open>IDENTIFIER\<close> token gets the
  text as its literal.
\<close>

definition identifier_tok :: "'n Lexer \<Rightarrow> 'n Lexer" where
  "identifier_tok L =
     (let L1 = identifier_loop L;
          text = slice (source L1) (start L1) (current L1)
      in case map_of Keywords (toLowerCase text) of
           Some t \<Rightarrow> addToken t NoLiteral L1
         | None \<Rightarrow>
             if toLowerCase text \<in> set inherited_names
             then addToken (INHERITED (toLowerCase text)) NoLiteral L1
             else addToken IDENTIFIER (StringLiteral text) L1)"

subsection \<open>scanToken and tokenize\<close>

text \<open>
  \<^verbatim>\<open>scanToken\<close> runs only while the lexer is not at the end, so the character that
  \<^verbatim>\<open>advance()\<close> returns is the one \<open>peek\<close> reads before the move.
\<close>

definition two_char :: "char \<Rightarrow> TokenType \<Rightarrow> TokenType \<Rightarrow> 'n Lexer \<Rightarrow> 'n Lexer" where
  "two_char expected yes no L =
     (case match expected L of (True, L1) \<Rightarrow> addToken yes NoLiteral L1
                             | (False, L1) \<Rightarrow> addToken no NoLiteral L1)"

definition scanToken :: "'n Host \<Rightarrow> 'n Lexer \<Rightarrow> MasalaError + 'n Lexer" where
  "scanToken host L =
     (case skipWhitespaceAndComments L of
        (True, L1) \<Rightarrow> Inr L1
      | (False, L1) \<Rightarrow>
     (case matchKeyword L1 of
        (True, L2) \<Rightarrow> Inr L2
      | (False, L2) \<Rightarrow>
     (let char = peek L2; L3 = advance L2 in
      case map_of SingleCharTokens char of
        Some t \<Rightarrow> Inr (addToken t NoLiteral L3)
      | None \<Rightarrow>
          if char = CHR ''='' then Inr (two_char (CHR ''='') EQUAL_EQUAL EQUAL L3)
          else if char = CHR ''!'' then Inr (two_char (CHR ''='') BANG_EQUAL BANG L3)
          else if char = CHR ''<'' then Inr (two_char (CHR ''='') LESS_EQUAL LESS L3)
          else if char = CHR ''>'' then Inr (two_char (CHR ''='') GREATER_EQUAL GREATER L3)
          else if char = CHR ''&'' then
            (case match (CHR ''&'') L3 of
               (True, L4) \<Rightarrow> Inr (addToken AND NoLiteral L4)
             | (False, L4) \<Rightarrow>
                 Inl (LexerError (UNEXPECTED_CHARACTER char) (line L4) (startColumn L4)))
          else if char = CHR ''|'' then
            (case match (CHR ''|'') L3 of
               (True, L4) \<Rightarrow> Inr (addToken OR NoLiteral L4)
             | (False, L4) \<Rightarrow>
                 Inl (LexerError (UNEXPECTED_CHARACTER char) (line L4) (startColumn L4)))
          else if char = CHR 0x22 then string_lit L3
          else if isDigit char then number host L3
          else if isAlpha char then Inr (identifier_tok L3)
          else Inl (LexerError (UNEXPECTED_CHARACTER char) (line L3) (startColumn L3)))))"

subsection \<open>Every scan makes progress\<close>

lemma advance_fields [simp]:
  "source (advance L) = source L" "current (advance L) = Suc (current L)"
  by (simp_all add: advance_def)

lemma addToken_fields [simp]:
  "source (addToken t v L) = source L" "current (addToken t v L) = current L"
  by (simp_all add: addToken_def)

lemma advance_n_fields [simp]:
  "source (advance_n n L) = source L" "current (advance_n n L) = current L + n"
  by (induction n arbitrary: L) simp_all

lemma string_loop_mono: "source (string_loop L) = source L \<and> current L \<le> current (string_loop L)"
proof (induction L rule: string_loop.induct)
  case (1 L)
  show ?case
  proof (cases "peek L \<noteq> CHR 0x22 \<and> \<not> isAtEnd L")
    case True
    define L1 where "L1 = (if peek L = CHR 0x0A then L\<lparr>line := line L + 1, column := 0\<rparr> else L)"
    define L2 where "L2 = (if peek L1 = CHR 0x5C then advance L1 else L1)"
    have eq: "string_loop L = string_loop (advance L2)"
      using True by (subst string_loop.simps) (simp add: L1_def L2_def Let_def)
    have ih: "source (string_loop (advance L2)) = source (advance L2)
              \<and> current (advance L2) \<le> current (string_loop (advance L2))"
      using "1.IH" [OF True L1_def L2_def] .
    have "source (advance L2) = source L" "current L \<le> current (advance L2)"
      by (simp_all add: L1_def L2_def)
    with eq ih show ?thesis by simp
  next
    case False
    then have "string_loop L = L" by (subst string_loop.simps) auto
    then show ?thesis by simp
  qed
qed

lemma number_loop_mono: "source (number_loop L) = source L \<and> current L \<le> current (number_loop L)"
proof (induction L rule: number_loop.induct)
  case (1 L)
  show ?case
  proof (cases "isDigit (peek L)")
    case True
    then have "number_loop L = number_loop (advance L)" by (subst number_loop.simps) simp
    with "1.IH" [OF True] show ?thesis by simp
  next
    case False
    then have "number_loop L = L" by (subst number_loop.simps) simp
    then show ?thesis by simp
  qed
qed

lemma identifier_loop_mono:
  "source (identifier_loop L) = source L \<and> current L \<le> current (identifier_loop L)"
proof (induction L rule: identifier_loop.induct)
  case (1 L)
  show ?case
  proof (cases "isAlphaNumeric (peek L)")
    case True
    then have "identifier_loop L = identifier_loop (advance L)"
      by (subst identifier_loop.simps) simp
    with "1.IH" [OF True] show ?thesis by simp
  next
    case False
    then have "identifier_loop L = L" by (subst identifier_loop.simps) simp
    then show ?thesis by simp
  qed
qed

lemma skip_loop_mono:
  "skip_loop p L = (b, L') \<Longrightarrow>
     source L' = source L \<and> current L \<le> current L' \<and> b = (current L' \<noteq> p)"
proof (induction p L arbitrary: b L' rule: skip_loop.induct)
  case (1 startPos L)
  note prem = "1.prems"
  show ?case
  proof (cases "isAtEnd L")
    case True
    with prem show ?thesis by (subst (asm) skip_loop.simps) auto
  next
    case nend: False
    show ?thesis
    proof (cases "peek L = CHR '' '' \<or> peek L = CHR 0x09 \<or> peek L = CHR 0x0D")
      case True
      with nend prem have "skip_loop startPos (advance L) = (b, L')"
        by (subst (asm) skip_loop.simps) simp
      from "1.IH"(1) [OF nend True this] show ?thesis by simp
    next
      case nws: False
      show ?thesis
      proof (cases "peek L = CHR 0x0A")
        case True
        with nend nws prem
        have "skip_loop startPos (advance (L\<lparr>line := line L + 1, column := 0\<rparr>)) = (b, L')"
          by (subst (asm) skip_loop.simps) simp
        from "1.IH"(2) [OF nend nws True this] show ?thesis by simp
      next
        case nnl: False
        show ?thesis
        proof (cases "peek L = CHR ''/'' \<and> peekNext L = CHR ''/''")
          case True
          with nend nws nnl prem have "skip_loop startPos (comment_loop L) = (b, L')"
            by (subst (asm) skip_loop.simps) simp
          from "1.IH"(3) [OF nend nws nnl _ _ this] True comment_loop_current [of L]
          show ?thesis by simp
        next
          case False
          with nend nws nnl prem show ?thesis
            by (subst (asm) skip_loop.simps) (auto split: if_splits)
        qed
      qed
    qed
  qed
qed

lemma matchKeyword_loop_mono:
  "\<forall>kw \<in> set kws. fst kw \<noteq> [] \<Longrightarrow> matchKeyword_loop kws L = (b, L') \<Longrightarrow>
     source L' = source L \<and> (if b then current L < current L' else L' = L)"
proof (induction kws L rule: matchKeyword_loop.induct)
  case (1 L)
  then show ?case by simp
next
  case (2 keyword t rest L)
  then show ?case by (auto simp: Let_def split: if_splits)
qed

lemma sortedKeywords_nonempty: "\<forall>kw \<in> set sortedKeywords. fst kw \<noteq> []"
  by (simp add: sortedKeywords_def Keywords_def)

lemma match_mono: "match c L = (b, L') \<Longrightarrow> source L' = source L \<and> current L \<le> current L'"
  by (auto simp: match_def split: if_splits)

lemma two_char_mono: "source (two_char c y n L) = source L \<and> current L \<le> current (two_char c y n L)"
  by (auto simp: two_char_def dest: match_mono split: prod.splits bool.splits)

lemma string_lit_mono: "string_lit L = Inr L' \<Longrightarrow> source L' = source L \<and> current L \<le> current L'"
  using string_loop_mono [of L]
  by (auto simp: string_lit_def Let_def split: if_splits)

lemma number_mono: "number host L = Inr L' \<Longrightarrow> source L' = source L \<and> current L \<le> current L'"
  using number_loop_mono [of L] number_loop_mono [of "advance (number_loop L)"]
  by (auto simp: number_def Let_def split: if_splits)

lemma identifier_tok_mono: "source (identifier_tok L) = source L \<and> current L \<le> current (identifier_tok L)"
  using identifier_loop_mono [of L]
  by (auto simp: identifier_tok_def Let_def split: option.splits if_splits)

lemma scanToken_progress:
  assumes "scanToken host L = Inr L'"
  shows "source L' = source L \<and> current L < current L'"
proof -
  obtain b1 L1 where s: "skipWhitespaceAndComments L = (b1, L1)" by (cases "skipWhitespaceAndComments L")
  then have s1: "source L1 = source L" "current L \<le> current L1" "b1 = (current L1 \<noteq> current L)"
    using skip_loop_mono [of "current L" L b1 L1] by (auto simp: skipWhitespaceAndComments_def)
  show ?thesis
  proof (cases b1)
    case True
    with assms s s1 show ?thesis by (auto simp: scanToken_def)
  next
    case False
    obtain b2 L2 where m: "matchKeyword L1 = (b2, L2)" by (cases "matchKeyword L1")
    then have m1: "source L2 = source L1" "if b2 then current L1 < current L2 else L2 = L1"
      using matchKeyword_loop_mono [OF sortedKeywords_nonempty, of L1 b2 L2]
      by (auto simp: matchKeyword_def)
    show ?thesis
    proof (cases b2)
      case True
      with assms s False m m1 s1 show ?thesis by (auto simp: scanToken_def)
    next
      case b2: False
      with m1 have [simp]: "L2 = L1" by simp
      from False s1 have c: "current L1 = current L" by simp
      let ?L3 = "advance L1"
      have a: "source ?L3 = source L" "current L < current ?L3" using s1 c by simp_all
      have tc: "\<And>c y n. current L < current (two_char c y n ?L3)"
        using two_char_mono [of _ _ _ ?L3] a by (metis less_le_trans)
      have it: "current L < current (identifier_tok ?L3)"
        using identifier_tok_mono [of ?L3] a by (metis less_le_trans)
      have mt: "\<And>c b M. match c ?L3 = (b, M) \<Longrightarrow> source M = source L \<and> current L < current M"
        using match_mono [of _ ?L3] a by (metis less_le_trans)
      have st: "string_lit ?L3 = Inr L' \<Longrightarrow> source L' = source L \<and> current L < current L'"
        using string_lit_mono [of ?L3 L'] a by (metis less_le_trans)
      have nm: "number host ?L3 = Inr L' \<Longrightarrow> source L' = source L \<and> current L < current L'"
        using number_mono [of host ?L3 L'] a by (metis less_le_trans)
      from assms s False m b2 show ?thesis
        by (auto simp: scanToken_def Let_def tc it s1 c two_char_mono identifier_tok_mono
                 dest: mt st nm
                 split: option.splits if_splits prod.splits bool.splits)
    qed
  qed
qed


text \<open>
  The loop of \<^verbatim>\<open>tokenize\<close>. It ends because every successful \<^verbatim>\<open>scanToken\<close> moves
  \<^verbatim>\<open>current\<close> forward.
\<close>

function tokenize_loop :: "'n Host \<Rightarrow> 'n Lexer \<Rightarrow> MasalaError + 'n Lexer" where
  "tokenize_loop host L =
     (if \<not> isAtEnd L
      then (case scanToken host (L\<lparr>start := current L, startColumn := column L\<rparr>) of
              Inl e \<Rightarrow> Inl e
            | Inr L' \<Rightarrow> tokenize_loop host L')
      else Inr L)"
  by pat_completeness auto
termination
proof (relation "measure (\<lambda>(host, L). length (source L) - current L)", goal_cases)
  case 1
  show ?case by simp
next
  case (2 host L L')
  then have "\<not> isAtEnd L"
    and "scanToken host (L\<lparr>start := current L, startColumn := column L\<rparr>) = Inr L'"
    by simp_all
  from scanToken_progress [OF this(2)] this(1) show ?case by (simp add: isAtEnd_def, arith)
qed

declare tokenize_loop.simps [simp del]

definition tokenize :: "'n Host \<Rightarrow> string \<Rightarrow> MasalaError + 'n Token list" where
  "tokenize host src =
     (case tokenize_loop host (new_Lexer src) of
        Inl e \<Rightarrow> Inl e
      | Inr L \<Rightarrow>
          Inr (tokens L @
               [\<lparr>ttype = EOF, lexeme = [], literal = NoLiteral, tline = line L, tcolumn = column L\<rparr>]))"

subsection \<open>Evaluating the lexer\<close>

text \<open>
  Equations that let the simplifier run the lexer on a concrete source text: the character
  classes read off the bits of a character, the keyword table already sorted, and the
  keyword match on the rest of the source.
\<close>

lemma isDigit_Char:
  "isDigit (Char b0 b1 b2 b3 b4 b5 b6 b7) = (\<not> b7 \<and> \<not> b6 \<and> b5 \<and> b4 \<and> (\<not> b3 \<or> (\<not> b2 \<and> \<not> b1)))"
  by (cases b0; cases b1; cases b2; cases b3; cases b4; cases b5; cases b6; cases b7;
      simp add: isDigit_def)

lemma isAlpha_Char:
  "isAlpha (Char b0 b1 b2 b3 b4 b5 b6 b7) =
     (\<not> b7 \<and> b6 \<and>
       (((b0 \<or> b1 \<or> b2 \<or> b3 \<or> b4) \<and> \<not> (b4 \<and> b3 \<and> (b2 \<or> (b1 \<and> b0))))
        \<or> (\<not> b5 \<and> b4 \<and> b3 \<and> b2 \<and> b1 \<and> b0)))"
  by (cases b0; cases b1; cases b2; cases b3; cases b4; cases b5; cases b6; cases b7;
      simp add: isAlpha_def)

lemma toLowerCase_char_Char:
  "toLowerCase_char (Char b0 b1 b2 b3 b4 b5 b6 b7) =
     (if \<not> b7 \<and> b6 \<and> \<not> b5 \<and> (b0 \<or> b1 \<or> b2 \<or> b3 \<or> b4)
          \<and> \<not> (b4 \<and> b3 \<and> (b2 \<or> (b1 \<and> b0)))
      then Char b0 b1 b2 b3 b4 True b6 b7 else Char b0 b1 b2 b3 b4 b5 b6 b7)"
  by (cases b0; cases b1; cases b2; cases b3; cases b4; cases b5; cases b6; cases b7;
      simp add: toLowerCase_char_def char_of_def bit_0)

fun starts_with_ci :: "string \<Rightarrow> string \<Rightarrow> bool" where
  "starts_with_ci [] s = True"
| "starts_with_ci (k # ks) [] = False"
| "starts_with_ci (k # ks) (c # cs) =
     (if toLowerCase_char k = toLowerCase_char c then starts_with_ci ks cs else False)"

lemma prefix_toLowerCase: "prefix (toLowerCase k) (toLowerCase s) = starts_with_ci k s"
  by (induction k s rule: starts_with_ci.induct) (simp_all add: toLowerCase_def)

fun matchKeyword_rem :: "(string \<times> TokenType) list \<Rightarrow> string \<Rightarrow> 'n Lexer \<Rightarrow> bool \<times> 'n Lexer" where
  "matchKeyword_rem [] rem L = (False, L)"
| "matchKeyword_rem ((keyword, t) # rest) rem L =
     (if starts_with_ci keyword rem
      then (if endsWithSpecial keyword \<or> length rem \<le> length keyword
               \<or> \<not> isAlphaNumeric (rem ! length keyword)
            then (True, addToken t NoLiteral (advance_n (length keyword) L))
            else matchKeyword_rem rest rem L)
      else matchKeyword_rem rest rem L)"

lemma matchKeyword_loop_rem:
  "matchKeyword_loop kws L = matchKeyword_rem kws (drop (current L) (source L)) L"
proof (induction kws L rule: matchKeyword_loop.induct)
  case (1 L)
  show ?case by simp
next
  case (2 keyword t rest L)
  have "(current L + length keyword \<ge> length (source L)) = (length (drop (current L) (source L)) \<le> length keyword)"
    by auto
  moreover have "\<not> current L + length keyword \<ge> length (source L) \<Longrightarrow>
     source L ! (current L + length keyword) = drop (current L) (source L) ! length keyword"
    by simp
  ultimately show ?case using 2
    by (auto simp: prefix_toLowerCase Let_def)
qed

lemma sortedKeywords_eval:
  "sortedKeywords =
    [(''me bahar ja raha hu'', BREAK),
     (''Chal bhai suru kar'', ACTION),
     (''dialogue wapas do'', DIALOGUE_WAPAS_DO),
     (''agar kismat rahi'', AGAR_KISMAT_RAHI),
     (''jab tak hai jaan'', JAB_TAK_HAI_JAAN),
     (''bas khatam karo'', PAISA_VASOOL),
     (''ek baat bataun:'', EK_BAAT_BATAUN),
     (''maan lo'', MAAN_LO),
     (''nahi to'', NAHI_TO),
     (''climax'', CLIMAX),
     (''khaali'', KHAALI),
     (''warna'', WARNA),
     (''galat'', GALAT),
     (''sach'', SACH)]"
  by (simp add: sortedKeywords_def Keywords_def)

lemma matchKeyword_eval:
  "matchKeyword L = matchKeyword_rem sortedKeywords (drop (current L) (source L)) L"
  by (simp add: matchKeyword_def matchKeyword_loop_rem)

lemma toLowerCase_simps:
  "toLowerCase [] = []" "toLowerCase (c # cs) = toLowerCase_char c # toLowerCase cs"
  by (simp_all add: toLowerCase_def)

declare isDigit_Char [code] isAlpha_Char [code] toLowerCase_char_Char [code]
  matchKeyword_eval [code] sortedKeywords_eval [code]

text \<open>
  The steps of \<open>number\<close> after the integer part, one function each, so that evaluation
  takes them one after the other.
\<close>

definition number_fraction :: "'n Lexer \<Rightarrow> 'n Lexer" where
  "number_fraction L1 =
     (if peek L1 = CHR ''.'' \<and> isDigit (peekNext L1) then number_loop (advance L1) else L1)"

definition number_token :: "'n Host \<Rightarrow> 'n Lexer \<Rightarrow> string \<Rightarrow> MasalaError + 'n Lexer" where
  "number_token host L2 lx =
     (if h_isNaN host (h_parseFloat host lx)
      then Inl (LexerError (INVALID_NUMBER lx) (line L2) (startColumn L2))
      else Inr (addToken NUMBER (NumberLiteral (h_parseFloat host lx)) L2))"

definition number_lexeme :: "'n Host \<Rightarrow> 'n Lexer \<Rightarrow> MasalaError + 'n Lexer" where
  "number_lexeme host L2 = number_token host L2 (slice (source L2) (start L2) (current L2))"

lemma number_eval: "number host L = number_lexeme host (number_fraction (number_loop L))"
  by (simp add: number_def number_fraction_def number_lexeme_def number_token_def Let_def)

lemmas lexer_eval =
  tokenize_def new_Lexer_def tokenize_loop.simps scanToken_def skipWhitespaceAndComments_def
  skip_loop.simps comment_loop.simps matchKeyword_eval sortedKeywords_eval Keywords_def
  endsWithSpecial_def string_lit_def string_loop.simps process_escapes_def number_eval
  number_fraction_def number_lexeme_def number_token_def
  number_loop.simps identifier_tok_def inherited_names_def
  identifier_loop.simps two_char_def match_def peek_def peekNext_def isAtEnd_def advance_def
  addToken_def slice_def toLowerCase_simps toLowerCase_char_Char isDigit_Char isAlpha_Char
  isAlphaNumeric_def SingleCharTokens_def Let_def

section \<open>Syntax trees (ast.js)\<close>

text \<open>
  The node types of \<^verbatim>\<open>NodeType\<close>, as two datatypes: expressions and statements. An
  assignment is built by the parser's expression ladder, so it is an expression. A block
  node is the list of its statements. The last component of a node is its line. The module
  parser has no factory for \<^verbatim>\<open>BreakStatement\<close>; only the browser bundle builds that node.
\<close>

datatype 'n Lit = LNull | LBool bool | LNumber 'n | LString string

datatype 'n Expr =
    BinaryExpression string "'n Expr" "'n Expr" nat
  | UnaryExpression string "'n Expr" nat
  | CallExpression string "'n Expr list" nat
  | Literal "'n Lit" nat
  | Identifier string nat
  | Grouping "'n Expr" nat
  | Assignment string "'n Expr" nat

datatype 'n Stmt =
    VariableDeclaration string "'n Expr" nat
  | PrintStatement "'n Expr list" nat
  | IfStatement "'n Expr list" "'n Stmt list list" "'n Stmt list option" nat
  | WhileStatement "'n Expr" "'n Stmt list" nat
  | BreakStatement nat
  | FunctionDeclaration string "string list" "'n Stmt list" nat
  | ReturnStatement "'n Expr option" nat
  | ExpressionStatement "'n Expr" nat
  | Block "'n Stmt list"

datatype 'n Program = Program "'n Stmt list"

fun body :: "'n Program \<Rightarrow> 'n Stmt list" where
  "body (Program stmts) = stmts"

section \<open>Parser (parser.js)\<close>

text \<open>
  The parser object is the token array and the index \<^verbatim>\<open>current\<close>. The array comes from
  \<open>tokenize\<close>, so it ends with the \<open>EOF\<close> token, and \<^verbatim>\<open>advance\<close> never steps past
  that token: every index the parser reads is inside the array.
\<close>

record 'n Parser =
  ptokens :: "'n Token list"
  pcurrent :: nat

definition new_Parser :: "'n Token list \<Rightarrow> 'n Parser" where
  "new_Parser toks = \<lparr>ptokens = toks, pcurrent = 0\<rparr>"

definition ppeek :: "'n Parser \<Rightarrow> 'n Token" where
  "ppeek P = ptokens P ! pcurrent P"

definition pisAtEnd :: "'n Parser \<Rightarrow> bool" where
  "pisAtEnd P = (ttype (ppeek P) = EOF)"

text \<open>
  \<^verbatim>\<open>advance\<close> returns \<^verbatim>\<open>previous()\<close>; where the parser is not at the end, that is the
  token \<open>ppeek\<close> reads before the move.
\<close>

definition padvance :: "'n Parser \<Rightarrow> 'n Parser" where
  "padvance P = (if \<not> pisAtEnd P then P\<lparr>pcurrent := pcurrent P + 1\<rparr> else P)"

definition previous :: "'n Parser \<Rightarrow> 'n Token" where
  "previous P = ptokens P ! (pcurrent P - 1)"

definition check :: "TokenType \<Rightarrow> 'n Parser \<Rightarrow> bool" where
  "check t P = (if pisAtEnd P then False else ttype (ppeek P) = t)"

fun pmatch :: "TokenType list \<Rightarrow> 'n Parser \<Rightarrow> bool \<times> 'n Parser" where
  "pmatch [] P = (False, P)"
| "pmatch (t # ts) P = (if check t P then (True, padvance P) else pmatch ts P)"

text \<open>
  A parsing method either throws a parser error or returns its result and the parser after
  it. The recursion of the descent is bounded by a fuel argument; \<open>None\<close> means the fuel
  ran out.
\<close>

type_synonym ('a, 'n) presult = "(MasalaError + 'a \<times> 'n Parser) option"

definition perror :: "string \<Rightarrow> 'n Parser \<Rightarrow> ('a, 'n) presult" where
  "perror msg P = Some (Inl (ParserError msg (tline (ppeek P)) (tcolumn (ppeek P))))"

definition pbind :: "('a, 'n) presult \<Rightarrow> ('a \<Rightarrow> 'n Parser \<Rightarrow> ('b, 'n) presult) \<Rightarrow> ('b, 'n) presult" where
  "pbind m f =
     (case m of
        None \<Rightarrow> None
      | Some (Inl e) \<Rightarrow> Some (Inl e)
      | Some (Inr (x, P)) \<Rightarrow> f x P)"

definition consume :: "TokenType \<Rightarrow> string \<Rightarrow> 'n Parser \<Rightarrow> ('n Token, 'n) presult" where
  "consume t errorMessage P =
     (if check t P then Some (Inr (ppeek P, padvance P)) else perror errorMessage P)"

text \<open>The parameter list of a function declaration: the \<^verbatim>\<open>do ... while\<close> loop.\<close>

primrec params_loop :: "nat \<Rightarrow> string list \<Rightarrow> 'n Parser \<Rightarrow> (string list, 'n) presult" where
  "params_loop 0 acc P = None"
| "params_loop (Suc n) acc P =
     (if \<not> check IDENTIFIER P then perror EXPECTED_IDENTIFIER P
      else (let acc1 = acc @ [lexeme (ppeek P)]; P1 = padvance P in
            case pmatch [COMMA] P1 of
              (True, P2) \<Rightarrow> params_loop n acc1 P2
            | (False, P2) \<Rightarrow> Some (Inr (acc1, P2))))"

text \<open>The literal a \<open>NUMBER\<close> or \<open>STRING\<close> token carries, as a literal node's value.\<close>

fun lit_of :: "'n Literal_value \<Rightarrow> 'n Lit" where
  "lit_of (NumberLiteral v) = LNumber v"
| "lit_of (StringLiteral s) = LString s"
| "lit_of NoLiteral = LNull"

text \<open>\<^verbatim>\<open>callee.type === NodeType.IDENTIFIER ? callee.name : '<expr>'\<close>\<close>

fun calleeName :: "'n Expr \<Rightarrow> string" where
  "calleeName (Identifier name lno) = name"
| "calleeName e = ''<expr>''"

text \<open>
  The recursive descent. Every method is a function of its own; each \<^verbatim>\<open>while\<close> loop of
  a method is the function with the suffix \<open>_loop\<close>, and its fuel counts the iterations.
  The methods of the expression ladder reach \<^verbatim>\<open>this.expression()\<close> again only below a
  parenthesis or a call; they take that method as the argument \<open>ex\<close>, and \<open>expression\<close>
  ties the knot on the fuel. In the same way the statement methods take
  \<^verbatim>\<open>this.declaration()\<close> as the argument \<open>decl\<close>.
\<close>

definition primary :: "('n Parser \<Rightarrow> ('n Expr, 'n) presult) \<Rightarrow> 'n Parser \<Rightarrow> ('n Expr, 'n) presult" where
  "primary ex P =
     (let lno = tline (ppeek P) in
      if check SACH P then Some (Inr (Literal (LBool True) lno, padvance P))
      else if check GALAT P then Some (Inr (Literal (LBool False) lno, padvance P))
      else if check KHAALI P then Some (Inr (Literal LNull lno, padvance P))
      else if check NUMBER P then Some (Inr (Literal (lit_of (literal (ppeek P))) lno, padvance P))
      else if check STRING P then Some (Inr (Literal (lit_of (literal (ppeek P))) lno, padvance P))
      else if check IDENTIFIER P then Some (Inr (Identifier (lexeme (ppeek P)) lno, padvance P))
      else if check LPAREN P then
        pbind (ex (padvance P)) (\<lambda>e P1.
        pbind (consume RPAREN EXPECTED_RPAREN P1) (\<lambda>rp P2.
        Some (Inr (Grouping e lno, P2))))
      else perror EXPECTED_EXPRESSION P)"

primrec args_loop :: "('n Parser \<Rightarrow> ('n Expr, 'n) presult) \<Rightarrow> nat \<Rightarrow> 'n Expr list \<Rightarrow> 'n Parser \<Rightarrow> ('n Expr list, 'n) presult" where
  "args_loop ex 0 args P = None"
| "args_loop ex (Suc n) args P =
     pbind (ex P) (\<lambda>e P1.
       case pmatch [COMMA] P1 of
         (True, P2) \<Rightarrow> args_loop ex n (args @ [e]) P2
       | (False, P2) \<Rightarrow> Some (Inr (args @ [e], P2)))"

definition finishCall :: "('n Parser \<Rightarrow> ('n Expr, 'n) presult) \<Rightarrow> nat \<Rightarrow> 'n Expr \<Rightarrow> 'n Parser \<Rightarrow> ('n Expr, 'n) presult" where
  "finishCall ex n callee P =
     pbind (if \<not> check RPAREN P then args_loop ex n [] P else Some (Inr ([], P))) (\<lambda>args P1.
     pbind (consume RPAREN EXPECTED_RPAREN P1) (\<lambda>paren P2.
     Some (Inr (CallExpression (calleeName callee) args (tline paren), P2))))"

primrec call_loop :: "('n Parser \<Rightarrow> ('n Expr, 'n) presult) \<Rightarrow> nat \<Rightarrow> 'n Expr \<Rightarrow> 'n Parser \<Rightarrow> ('n Expr, 'n) presult" where
  "call_loop ex 0 e P = None"
| "call_loop ex (Suc n) e P =
     (case pmatch [LPAREN] P of
        (True, P1) \<Rightarrow> pbind (finishCall ex n e P1) (\<lambda>e1 P2. call_loop ex n e1 P2)
      | (False, P1) \<Rightarrow> Some (Inr (e, P1)))"

definition call :: "('n Parser \<Rightarrow> ('n Expr, 'n) presult) \<Rightarrow> nat \<Rightarrow> 'n Parser \<Rightarrow> ('n Expr, 'n) presult" where
  "call ex n P = pbind (primary ex P) (\<lambda>e P1. call_loop ex n e P1)"

primrec unary :: "('n Parser \<Rightarrow> ('n Expr, 'n) presult) \<Rightarrow> nat \<Rightarrow> 'n Parser \<Rightarrow> ('n Expr, 'n) presult" where
  "unary ex 0 P = None"
| "unary ex (Suc n) P =
     (case pmatch [BANG, MINUS] P of
        (True, P1) \<Rightarrow>
          (let operator = lexeme (previous P1) in
           pbind (unary ex n P1) (\<lambda>operand P2.
             Some (Inr (UnaryExpression operator operand (tline (previous P2)), P2))))
      | (False, P1) \<Rightarrow> call ex n P1)"

primrec factor_loop :: "('n Parser \<Rightarrow> ('n Expr, 'n) presult) \<Rightarrow> nat \<Rightarrow> 'n Expr \<Rightarrow> 'n Parser \<Rightarrow> ('n Expr, 'n) presult" where
  "factor_loop ex 0 e P = None"
| "factor_loop ex (Suc n) e P =
     (case pmatch [STAR, SLASH, PERCENT] P of
        (True, P1) \<Rightarrow>
          (let operator = lexeme (previous P1) in
           pbind (unary ex n P1) (\<lambda>r P2.
             factor_loop ex n (BinaryExpression operator e r (tline (previous P2))) P2))
      | (False, P1) \<Rightarrow> Some (Inr (e, P1)))"

definition factor :: "('n Parser \<Rightarrow> ('n Expr, 'n) presult) \<Rightarrow> nat \<Rightarrow> 'n Parser \<Rightarrow> ('n Expr, 'n) presult" where
  "factor ex n P = pbind (unary ex n P) (\<lambda>e P1. factor_loop ex n e P1)"

primrec term_loop :: "('n Parser \<Rightarrow> ('n Expr, 'n) presult) \<Rightarrow> nat \<Rightarrow> 'n Expr \<Rightarrow> 'n Parser \<Rightarrow> ('n Expr, 'n) presult" where
  "term_loop ex 0 e P = None"
| "term_loop ex (Suc n) e P =
     (case pmatch [PLUS, MINUS] P of
        (True, P1) \<Rightarrow>
          (let operator = lexeme (previous P1) in
           pbind (factor ex n P1) (\<lambda>r P2.
             term_loop ex n (BinaryExpression operator e r (tline (previous P2))) P2))
      | (False, P1) \<Rightarrow> Some (Inr (e, P1)))"

definition term_expr :: "('n Parser \<Rightarrow> ('n Expr, 'n) presult) \<Rightarrow> nat \<Rightarrow> 'n Parser \<Rightarrow> ('n Expr, 'n) presult" where
  "term_expr ex n P = pbind (factor ex n P) (\<lambda>e P1. term_loop ex n e P1)"

primrec comparison_loop :: "('n Parser \<Rightarrow> ('n Expr, 'n) presult) \<Rightarrow> nat \<Rightarrow> 'n Expr \<Rightarrow> 'n Parser \<Rightarrow> ('n Expr, 'n) presult" where
  "comparison_loop ex 0 e P = None"
| "comparison_loop ex (Suc n) e P =
     (case pmatch [LESS, GREATER, LESS_EQUAL, GREATER_EQUAL] P of
        (True, P1) \<Rightarrow>
          (let operator = lexeme (previous P1) in
           pbind (term_expr ex n P1) (\<lambda>r P2.
             comparison_loop ex n (BinaryExpression operator e r (tline (previous P2))) P2))
      | (False, P1) \<Rightarrow> Some (Inr (e, P1)))"

definition comparison :: "('n Parser \<Rightarrow> ('n Expr, 'n) presult) \<Rightarrow> nat \<Rightarrow> 'n Parser \<Rightarrow> ('n Expr, 'n) presult" where
  "comparison ex n P = pbind (term_expr ex n P) (\<lambda>e P1. comparison_loop ex n e P1)"

primrec equality_loop :: "('n Parser \<Rightarrow> ('n Expr, 'n) presult) \<Rightarrow> nat \<Rightarrow> 'n Expr \<Rightarrow> 'n Parser \<Rightarrow> ('n Expr, 'n) presult" where
  "equality_loop ex 0 e P = None"
| "equality_loop ex (Suc n) e P =
     (case pmatch [EQUAL_EQUAL, BANG_EQUAL] P of
        (True, P1) \<Rightarrow>
          (let operator = lexeme (previous P1) in
           pbind (comparison ex n P1) (\<lambda>r P2.
             equality_loop ex n (BinaryExpression operator e r (tline (previous P2))) P2))
      | (False, P1) \<Rightarrow> Some (Inr (e, P1)))"

definition equality :: "('n Parser \<Rightarrow> ('n Expr, 'n) presult) \<Rightarrow> nat \<Rightarrow> 'n Parser \<Rightarrow> ('n Expr, 'n) presult" where
  "equality ex n P = pbind (comparison ex n P) (\<lambda>e P1. equality_loop ex n e P1)"

primrec logicAnd_loop :: "('n Parser \<Rightarrow> ('n Expr, 'n) presult) \<Rightarrow> nat \<Rightarrow> 'n Expr \<Rightarrow> 'n Parser \<Rightarrow> ('n Expr, 'n) presult" where
  "logicAnd_loop ex 0 e P = None"
| "logicAnd_loop ex (Suc n) e P =
     (case pmatch [AND] P of
        (True, P1) \<Rightarrow>
          (let operator = lexeme (previous P1) in
           pbind (equality ex n P1) (\<lambda>r P2.
             logicAnd_loop ex n (BinaryExpression operator e r (tline (previous P2))) P2))
      | (False, P1) \<Rightarrow> Some (Inr (e, P1)))"

definition logicAnd :: "('n Parser \<Rightarrow> ('n Expr, 'n) presult) \<Rightarrow> nat \<Rightarrow> 'n Parser \<Rightarrow> ('n Expr, 'n) presult" where
  "logicAnd ex n P = pbind (equality ex n P) (\<lambda>e P1. logicAnd_loop ex n e P1)"

primrec logicOr_loop :: "('n Parser \<Rightarrow> ('n Expr, 'n) presult) \<Rightarrow> nat \<Rightarrow> 'n Expr \<Rightarrow> 'n Parser \<Rightarrow> ('n Expr, 'n) presult" where
  "logicOr_loop ex 0 e P = None"
| "logicOr_loop ex (Suc n) e P =
     (case pmatch [OR] P of
        (True, P1) \<Rightarrow>
          (let operator = lexeme (previous P1) in
           pbind (logicAnd ex n P1) (\<lambda>r P2.
             logicOr_loop ex n (BinaryExpression operator e r (tline (previous P2))) P2))
      | (False, P1) \<Rightarrow> Some (Inr (e, P1)))"

definition logicOr :: "('n Parser \<Rightarrow> ('n Expr, 'n) presult) \<Rightarrow> nat \<Rightarrow> 'n Parser \<Rightarrow> ('n Expr, 'n) presult" where
  "logicOr ex n P = pbind (logicAnd ex n P) (\<lambda>e P1. logicOr_loop ex n e P1)"

primrec assignment :: "('n Parser \<Rightarrow> ('n Expr, 'n) presult) \<Rightarrow> nat \<Rightarrow> 'n Parser \<Rightarrow> ('n Expr, 'n) presult" where
  "assignment ex 0 P = None"
| "assignment ex (Suc n) P =
     pbind (logicOr ex n P) (\<lambda>e P1.
       case pmatch [EQUAL] P1 of
         (True, P2) \<Rightarrow>
           pbind (assignment ex n P2) (\<lambda>v P3.
             case e of
               Identifier name lno \<Rightarrow> Some (Inr (Assignment name v lno, P3))
             | _ \<Rightarrow> Some (Inl (ParserError INVALID_ASSIGNMENT_TARGET
                                 (tline (previous P3)) (tcolumn (previous P3)))))
       | (False, P2) \<Rightarrow> Some (Inr (e, P2)))"

primrec expression :: "nat \<Rightarrow> 'n Parser \<Rightarrow> ('n Expr, 'n) presult" where
  "expression 0 P = None"
| "expression (Suc n) P = assignment (expression n) n P"

primrec block :: "('n Parser \<Rightarrow> ('n Stmt, 'n) presult) \<Rightarrow> nat \<Rightarrow> 'n Stmt list \<Rightarrow> 'n Parser \<Rightarrow> ('n Stmt list, 'n) presult" where
  "block decl 0 statements P = None"
| "block decl (Suc n) statements P =
     (if \<not> check RBRACE P \<and> \<not> pisAtEnd P
      then pbind (decl P) (\<lambda>s P1. block decl n (statements @ [s]) P1)
      else pbind (consume RBRACE EXPECTED_RBRACE P) (\<lambda>rb P1. Some (Inr (statements, P1))))"

definition functionDeclaration :: "('n Parser \<Rightarrow> ('n Stmt, 'n) presult) \<Rightarrow> nat \<Rightarrow> 'n Parser \<Rightarrow> ('n Stmt, 'n) presult" where
  "functionDeclaration decl n P =
     (let lno = tline (ppeek P); P1 = padvance P in
      if \<not> check IDENTIFIER P1 then perror EXPECTED_IDENTIFIER P1
      else (let name = lexeme (ppeek P1); P2 = padvance P1 in
        pbind (consume LPAREN EXPECTED_LPAREN P2) (\<lambda>lp P3.
        pbind (if \<not> check RPAREN P3 then params_loop n [] P3 else Some (Inr ([], P3))) (\<lambda>ps P4.
        pbind (consume RPAREN EXPECTED_RPAREN P4) (\<lambda>rp P5.
        pbind (consume LBRACE EXPECTED_LBRACE P5) (\<lambda>lb P6.
        pbind (block decl n [] P6) (\<lambda>b P7.
        Some (Inr (FunctionDeclaration name ps b lno, P7)))))))))"

definition variableDeclaration :: "nat \<Rightarrow> 'n Parser \<Rightarrow> ('n Stmt, 'n) presult" where
  "variableDeclaration n P =
     (let lno = tline (ppeek P); P1 = padvance P in
      if \<not> check IDENTIFIER P1 then perror EXPECTED_IDENTIFIER P1
      else (let name = lexeme (ppeek P1); P2 = padvance P1 in
        pbind (consume EQUAL EXPECTED_EQUALS P2) (\<lambda>eq P3.
        pbind (expression n P3) (\<lambda>v P4.
        Some (Inr (VariableDeclaration name v lno, P4))))))"

primrec elseif_loop :: "('n Parser \<Rightarrow> ('n Stmt, 'n) presult) \<Rightarrow> nat \<Rightarrow> 'n Expr list \<Rightarrow> 'n Stmt list list \<Rightarrow> 'n Parser
    \<Rightarrow> ('n Expr list \<times> 'n Stmt list list, 'n) presult" where
  "elseif_loop decl 0 conditions consequents P = None"
| "elseif_loop decl (Suc n) conditions consequents P =
     (if check NAHI_TO P then
        pbind (consume LPAREN EXPECTED_LPAREN (padvance P)) (\<lambda>lp P2.
        pbind (expression n P2) (\<lambda>c P3.
        pbind (consume RPAREN EXPECTED_RPAREN P3) (\<lambda>rp P4.
        pbind (consume LBRACE EXPECTED_LBRACE P4) (\<lambda>lb P5.
        pbind (block decl n [] P5) (\<lambda>b P6.
        elseif_loop decl n (conditions @ [c]) (consequents @ [b]) P6)))))
      else Some (Inr ((conditions, consequents), P)))"

definition ifStatement :: "('n Parser \<Rightarrow> ('n Stmt, 'n) presult) \<Rightarrow> nat \<Rightarrow> 'n Parser \<Rightarrow> ('n Stmt, 'n) presult" where
  "ifStatement decl n P =
     (let lno = tline (ppeek P); P1 = padvance P in
      pbind (consume LPAREN EXPECTED_LPAREN P1) (\<lambda>lp P2.
      pbind (expression n P2) (\<lambda>c P3.
      pbind (consume RPAREN EXPECTED_RPAREN P3) (\<lambda>rp P4.
      pbind (consume LBRACE EXPECTED_LBRACE P4) (\<lambda>lb P5.
      pbind (block decl n [] P5) (\<lambda>b P6.
      pbind (elseif_loop decl n [c] [b] P6) (\<lambda>cb P7.
      if check WARNA P7 then
        pbind (consume LBRACE EXPECTED_LBRACE (padvance P7)) (\<lambda>lb2 P8.
        pbind (block decl n [] P8) (\<lambda>alt P9.
        Some (Inr (IfStatement (fst cb) (snd cb) (Some alt) lno, P9))))
      else Some (Inr (IfStatement (fst cb) (snd cb) None lno, P7)))))))))"

definition whileStatement :: "('n Parser \<Rightarrow> ('n Stmt, 'n) presult) \<Rightarrow> nat \<Rightarrow> 'n Parser \<Rightarrow> ('n Stmt, 'n) presult" where
  "whileStatement decl n P =
     (let lno = tline (ppeek P); P1 = padvance P in
      pbind (consume LPAREN EXPECTED_LPAREN P1) (\<lambda>lp P2.
      pbind (expression n P2) (\<lambda>c P3.
      pbind (consume RPAREN EXPECTED_RPAREN P3) (\<lambda>rp P4.
      pbind (consume LBRACE EXPECTED_LBRACE P4) (\<lambda>lb P5.
      pbind (block decl n [] P5) (\<lambda>b P6.
      Some (Inr (WhileStatement c b lno, P6))))))))"

definition returnStatement :: "nat \<Rightarrow> 'n Parser \<Rightarrow> ('n Stmt, 'n) presult" where
  "returnStatement n P =
     (let lno = tline (ppeek P); P1 = padvance P in
      if \<not> check RBRACE P1 \<and> \<not> check PAISA_VASOOL P1 \<and> \<not> pisAtEnd P1
      then pbind (expression n P1) (\<lambda>v P2. Some (Inr (ReturnStatement (Some v) lno, P2)))
      else Some (Inr (ReturnStatement None lno, P1)))"

primrec print_loop :: "nat \<Rightarrow> 'n Expr list \<Rightarrow> 'n Parser \<Rightarrow> ('n Expr list, 'n) presult" where
  "print_loop 0 expressions P = None"
| "print_loop (Suc n) expressions P =
     (case pmatch [COMMA] P of
        (True, P1) \<Rightarrow> pbind (expression n P1) (\<lambda>e P2. print_loop n (expressions @ [e]) P2)
      | (False, P1) \<Rightarrow> Some (Inr (expressions, P1)))"

definition printStatement :: "nat \<Rightarrow> 'n Parser \<Rightarrow> ('n Stmt, 'n) presult" where
  "printStatement n P =
     (let lno = tline (ppeek P); P1 = padvance P in
      pbind (expression n P1) (\<lambda>e P2.
      pbind (print_loop n [e] P2) (\<lambda>es P3.
      Some (Inr (PrintStatement es lno, P3)))))"

definition expressionStatement :: "nat \<Rightarrow> 'n Parser \<Rightarrow> ('n Stmt, 'n) presult" where
  "expressionStatement n P =
     (let lno = tline (ppeek P) in
      pbind (expression n P) (\<lambda>e P1. Some (Inr (ExpressionStatement e lno, P1))))"

text \<open>
  \<^verbatim>\<open>statement\<close> has no case for the \<open>BREAK\<close> token: such a token goes to
  \<^verbatim>\<open>expressionStatement\<close>.
\<close>

definition statement :: "('n Parser \<Rightarrow> ('n Stmt, 'n) presult) \<Rightarrow> nat \<Rightarrow> 'n Parser \<Rightarrow> ('n Stmt, 'n) presult" where
  "statement decl n P =
     (if check AGAR_KISMAT_RAHI P then ifStatement decl n P
      else if check JAB_TAK_HAI_JAAN P then whileStatement decl n P
      else if check DIALOGUE_WAPAS_DO P then returnStatement n P
      else if check EK_BAAT_BATAUN P then printStatement n P
      else if check LBRACE P then
        pbind (block decl n [] (padvance P)) (\<lambda>b P1. Some (Inr (Block b, P1)))
      else expressionStatement n P)"

text \<open>
  \<^verbatim>\<open>declaration\<close> catches an error only to call \<^verbatim>\<open>synchronize\<close> and throw it again;
  the parser is dropped with the error, so the model passes the error on.
\<close>

primrec declaration_stmt :: "nat \<Rightarrow> 'n Parser \<Rightarrow> ('n Stmt, 'n) presult" where
  "declaration_stmt 0 P = None"
| "declaration_stmt (Suc n) P =
     (if check CLIMAX P then functionDeclaration (declaration_stmt n) n P
      else if check MAAN_LO P then variableDeclaration n P
      else statement (declaration_stmt n) n P)"

text \<open>\<^verbatim>\<open>program\<close>, with its loop over the declarations.\<close>

primrec program_loop :: "nat \<Rightarrow> 'n Stmt list \<Rightarrow> 'n Parser \<Rightarrow> ('n Stmt list, 'n) presult" where
  "program_loop 0 statements P = None"
| "program_loop (Suc n) statements P =
     (if \<not> check PAISA_VASOOL P \<and> \<not> pisAtEnd P
      then pbind (declaration_stmt n P) (\<lambda>s P1. program_loop n (statements @ [s]) P1)
      else Some (Inr (statements, P)))"

definition program :: "nat \<Rightarrow> 'n Parser \<Rightarrow> ('n Program, 'n) presult" where
  "program n P =
     (if \<not> check ACTION P then perror EXPECTED_ACTION P
      else pbind (program_loop n [] (padvance P)) (\<lambda>statements P1.
        if \<not> check PAISA_VASOOL P1 then perror EXPECTED_PAISA_VASOOL P1
        else Some (Inr (Program statements, padvance P1))))"

text \<open>\<^verbatim>\<open>new Parser(tokens).parse()\<close>; the parser itself is dropped.\<close>

definition parse :: "nat \<Rightarrow> 'n Token list \<Rightarrow> (MasalaError + 'n Program) option" where
  "parse n toks =
     (case program n (new_Parser toks) of
        None \<Rightarrow> None
      | Some (Inl e) \<Rightarrow> Some (Inl e)
      | Some (Inr (ast, P)) \<Rightarrow> Some (Inr ast))"

section \<open>Semantic analyser (analyzer.js)\<close>

datatype BindingType = variable_binding | parameter_binding | function_binding

record FuncInfo =
  params :: "string list"
  paramCount :: nat
  fline :: nat

text \<open>
  The analyser object: the stack of scopes (the current scope is the last one, as in the
  array), the table of function signatures and the name of the function being visited.
\<close>

record Analyzer =
  scopes :: "(string \<rightharpoonup> BindingType \<times> nat) list"
  functionTable :: "string \<rightharpoonup> FuncInfo"
  currentFunction :: "string option"

definition new_Analyzer :: Analyzer where
  "new_Analyzer = \<lparr>scopes = [Map.empty], functionTable = Map.empty, currentFunction = None\<rparr>"

definition pushScope :: "Analyzer \<Rightarrow> Analyzer" where
  "pushScope A = A\<lparr>scopes := scopes A @ [Map.empty]\<rparr>"

definition popScope :: "Analyzer \<Rightarrow> Analyzer" where
  "popScope A = A\<lparr>scopes := butlast (scopes A)\<rparr>"

text \<open>\<^verbatim>\<open>currentScope.set(name, binding)\<close> on the last scope of the stack.\<close>

definition currentScope_set :: "string \<Rightarrow> BindingType \<times> nat \<Rightarrow> Analyzer \<Rightarrow> Analyzer" where
  "currentScope_set name b A =
     A\<lparr>scopes := butlast (scopes A) @ [(last (scopes A))(name \<mapsto> b)]\<rparr>"

fun lookup_from_top :: "(string \<rightharpoonup> BindingType \<times> nat) list \<Rightarrow> string \<Rightarrow> (BindingType \<times> nat) option" where
  "lookup_from_top [] name = None"
| "lookup_from_top (s # ss) name =
     (case s name of Some b \<Rightarrow> Some b | None \<Rightarrow> lookup_from_top ss name)"

text \<open>\<^verbatim>\<open>lookupVariable\<close>: from the last scope down to the first.\<close>

definition lookupVariable :: "Analyzer \<Rightarrow> string \<Rightarrow> (BindingType \<times> nat) option" where
  "lookupVariable A name = lookup_from_top (rev (scopes A)) name"

text \<open>
  Visiting an expression only reads the analyser; it either throws or returns.
\<close>

fun visitExpression :: "Analyzer \<Rightarrow> 'n Expr \<Rightarrow> MasalaError + unit"
  and visitExpressions :: "Analyzer \<Rightarrow> 'n Expr list \<Rightarrow> MasalaError + unit" where
  "visitExpression A (BinaryExpression op l r lno) =
     (case visitExpression A l of Inl e \<Rightarrow> Inl e | Inr u \<Rightarrow> visitExpression A r)"
| "visitExpression A (UnaryExpression op operand lno) = visitExpression A operand"
| "visitExpression A (CallExpression callee args lno) =
     (case functionTable A callee of
        None \<Rightarrow>
          (if lookupVariable A callee = None
           then Inl (SemanticError (UNDEFINED_FUNCTION callee) lno)
           else visitExpressions A args)
      | Some funcInfo \<Rightarrow>
          (if length args \<noteq> paramCount funcInfo
           then Inl (SemanticError (WRONG_ARG_COUNT callee (paramCount funcInfo) (length args)) lno)
           else visitExpressions A args))"
| "visitExpression A (Literal v lno) = Inr ()"
| "visitExpression A (Identifier name lno) =
     (if lookupVariable A name = None \<and> functionTable A name = None
      then Inl (SemanticError (UNDEFINED_VARIABLE name) lno)
      else Inr ())"
| "visitExpression A (Grouping e lno) = visitExpression A e"
| "visitExpression A (Assignment name v lno) =
     (if lookupVariable A name = None
      then Inl (SemanticError (UNDEFINED_VARIABLE name) lno)
      else visitExpression A v)"
| "visitExpressions A [] = Inr ()"
| "visitExpressions A (e # es) =
     (case visitExpression A e of Inl err \<Rightarrow> Inl err | Inr u \<Rightarrow> visitExpressions A es)"

text \<open>The loop over the parameters in \<^verbatim>\<open>visitFunctionDeclaration\<close>.\<close>

fun declare_params :: "nat \<Rightarrow> string list \<Rightarrow> Analyzer \<Rightarrow> MasalaError + Analyzer" where
  "declare_params lno [] A = Inr A"
| "declare_params lno (param # rest) A =
     (if param \<in> dom (last (scopes A))
      then Inl (SemanticError (ALREADY_DEFINED param) lno)
      else declare_params lno rest (currentScope_set param (parameter_binding, lno) A))"

text \<open>
  The statement visitor. \<open>visitBlock\<close> takes the flag \<^verbatim>\<open>createNewScope\<close>;
  \<open>visitBlocks\<close> is the loop over the consequents of an \<^verbatim>\<open>if\<close>. A node type
  without a case of its own (a break statement) falls to the default branch, which hands
  the node to \<^verbatim>\<open>visitExpression\<close>, where no case matches either.
\<close>

fun visitStatement :: "Analyzer \<Rightarrow> 'n Stmt \<Rightarrow> MasalaError + Analyzer"
  and visitStatements :: "Analyzer \<Rightarrow> 'n Stmt list \<Rightarrow> MasalaError + Analyzer"
  and visitBlock :: "Analyzer \<Rightarrow> bool \<Rightarrow> 'n Stmt list \<Rightarrow> MasalaError + Analyzer"
  and visitBlocks :: "Analyzer \<Rightarrow> 'n Stmt list list \<Rightarrow> MasalaError + Analyzer" where
  "visitStatement A (VariableDeclaration name v lno) =
     (if name \<in> dom (last (scopes A))
      then Inl (SemanticError (ALREADY_DEFINED name) lno)
      else (case visitExpression A v of
              Inl e \<Rightarrow> Inl e
            | Inr u \<Rightarrow> Inr (currentScope_set name (variable_binding, lno) A)))"
| "visitStatement A (PrintStatement es lno) =
     (case visitExpressions A es of Inl e \<Rightarrow> Inl e | Inr u \<Rightarrow> Inr A)"
| "visitStatement A (IfStatement conditions consequents alternate lno) =
     (case visitExpressions A conditions of
        Inl e \<Rightarrow> Inl e
      | Inr u \<Rightarrow>
          (case visitBlocks A consequents of
             Inl e \<Rightarrow> Inl e
           | Inr A1 \<Rightarrow>
               (case alternate of
                  None \<Rightarrow> Inr A1
                | Some alt \<Rightarrow> visitBlock A1 True alt)))"
| "visitStatement A (WhileStatement condition b lno) =
     (case visitExpression A condition of
        Inl e \<Rightarrow> Inl e
      | Inr u \<Rightarrow> visitBlock A True b)"
| "visitStatement A (BreakStatement lno) = Inr A"
| "visitStatement A (FunctionDeclaration name ps b lno) =
     (let previousFunction = currentFunction A in
      case declare_params lno ps (pushScope (A\<lparr>currentFunction := Some name\<rparr>)) of
        Inl e \<Rightarrow> Inl e
      | Inr A1 \<Rightarrow>
          (case visitBlock A1 False b of
             Inl e \<Rightarrow> Inl e
           | Inr A2 \<Rightarrow> Inr ((popScope A2)\<lparr>currentFunction := previousFunction\<rparr>)))"
| "visitStatement A (ReturnStatement v lno) =
     (if currentFunction A = None
      then Inl (SemanticError RETURN_OUTSIDE_FUNCTION lno)
      else (case v of
              None \<Rightarrow> Inr A
            | Some e \<Rightarrow> (case visitExpression A e of Inl err \<Rightarrow> Inl err | Inr u \<Rightarrow> Inr A)))"
| "visitStatement A (ExpressionStatement e lno) =
     (case visitExpression A e of Inl err \<Rightarrow> Inl err | Inr u \<Rightarrow> Inr A)"
| "visitStatement A (Block stmts) = visitBlock A False stmts"
| "visitStatements A [] = Inr A"
| "visitStatements A (s # ss) =
     (case visitStatement A s of Inl e \<Rightarrow> Inl e | Inr A1 \<Rightarrow> visitStatements A1 ss)"
| "visitBlock A createNewScope stmts =
     (case visitStatements (if createNewScope then pushScope A else A) stmts of
        Inl e \<Rightarrow> Inl e
      | Inr A1 \<Rightarrow> Inr (if createNewScope then popScope A1 else A1))"
| "visitBlocks A [] = Inr A"
| "visitBlocks A (b # bs) =
     (case visitBlock A True b of Inl e \<Rightarrow> Inl e | Inr A1 \<Rightarrow> visitBlocks A1 bs)"

text \<open>\<^verbatim>\<open>declareFunction\<close>, and the first pass of \<^verbatim>\<open>visitProgram\<close> that calls it.\<close>

definition declareFunction :: "Analyzer \<Rightarrow> string \<Rightarrow> string list \<Rightarrow> nat \<Rightarrow> MasalaError + Analyzer" where
  "declareFunction A name ps lno =
     (if name \<in> dom (functionTable A)
      then Inl (SemanticError (ALREADY_DEFINED name) lno)
      else Inr (currentScope_set name (function_binding, lno)
             (A\<lparr>functionTable := (functionTable A)(name \<mapsto>
                  \<lparr>params = ps, paramCount = length ps, fline = lno\<rparr>)\<rparr>)))"

fun first_pass :: "Analyzer \<Rightarrow> 'n Stmt list \<Rightarrow> MasalaError + Analyzer" where
  "first_pass A [] = Inr A"
| "first_pass A (FunctionDeclaration name ps b lno # rest) =
     (case declareFunction A name ps lno of Inl e \<Rightarrow> Inl e | Inr A1 \<Rightarrow> first_pass A1 rest)"
| "first_pass A (s # rest) = first_pass A rest"

definition visitProgram :: "Analyzer \<Rightarrow> 'n Program \<Rightarrow> MasalaError + Analyzer" where
  "visitProgram A ast =
     (case first_pass A (body ast) of
        Inl e \<Rightarrow> Inl e
      | Inr A1 \<Rightarrow> visitStatements A1 (body ast))"

text \<open>
  \<^verbatim>\<open>analyze\<close> resets the analyser, so the result does not depend on earlier runs: it
  throws the first error or returns the tree.
\<close>

definition analyze :: "'n Program \<Rightarrow> MasalaError + 'n Program" where
  "analyze ast =
     (case visitProgram new_Analyzer ast of Inl e \<Rightarrow> Inl e | Inr A \<Rightarrow> Inr ast)"

section \<open>Interpreter (interpreter.js)\<close>

subsection \<open>Values and environments\<close>

text \<open>
  A runtime value is \<^verbatim>\<open>null\<close>, a boolean, a number, a string or a \<^verbatim>\<open>MasalaFunction\<close>
  object: the declaration (name, parameters, body, line), the closure, which is a
  reference to an environment, and the identity of the object. Every
  \<^verbatim>\<open>new MasalaFunction\<close> makes a new object; the interpreter counts the function objects
  it has made, and the count at its creation is the identity of an object. Environments
  are objects that closures share, so they live in a store: the list of all environments
  created so far, an environment's address being its index.
\<close>

datatype 'n Value =
    Null
  | Bool bool
  | Number 'n
  | String string
  | MasalaFunction string "string list" "'n Stmt list" nat nat nat

text \<open>The map \<^verbatim>\<open>values\<close> of an environment is the field \<open>bindings\<close>.\<close>

record 'n Environment =
  bindings :: "string \<rightharpoonup> 'n Value"
  parent :: "nat option"

text \<open>
  The interpreter object: the store, the address of the global environment, the address of
  the current environment, the output list (the field \<open>output_lines\<close>) and the number of
  function objects made so far.
\<close>

record 'n Interpreter =
  heap :: "'n Environment list"
  globals :: nat
  environment :: nat
  output_lines :: "string list"
  function_objects :: nat

definition new_Interpreter :: "'n Interpreter" where
  "new_Interpreter =
     \<lparr>heap = [\<lparr>bindings = Map.empty, parent = None\<rparr>], globals = 0, environment = 0,
      output_lines = [], function_objects = 0\<rparr>"

text \<open>\<^verbatim>\<open>new Environment(parent)\<close>: the store with the new environment, and its address.\<close>

definition new_Environment :: "nat \<Rightarrow> 'n Interpreter \<Rightarrow> nat \<times> 'n Interpreter" where
  "new_Environment p S =
     (length (heap S), S\<lparr>heap := heap S @ [\<lparr>bindings = Map.empty, parent = Some p\<rparr>]\<rparr>)"

definition Environment_define :: "nat \<Rightarrow> string \<Rightarrow> 'n Value \<Rightarrow> 'n Interpreter \<Rightarrow> 'n Interpreter" where
  "Environment_define e name v S =
     S\<lparr>heap := (heap S)[e := (heap S ! e)\<lparr>bindings := (bindings (heap S ! e))(name \<mapsto> v)\<rparr>]\<rparr>"

text \<open>
  \<^verbatim>\<open>get\<close> and \<^verbatim>\<open>assign\<close> walk the parent references. A parent is created before its
  children, so its address is smaller; the walk follows a parent reference only in that
  direction. \<open>None\<close> is the case in which the method throws.
\<close>

function Environment_get :: "'n Environment list \<Rightarrow> nat \<Rightarrow> string \<Rightarrow> 'n Value option" where
  "Environment_get h e name =
     (if e < length h then
        (case bindings (h ! e) name of
           Some v \<Rightarrow> Some v
         | None \<Rightarrow>
             (case parent (h ! e) of
                Some p \<Rightarrow> (if p < e then Environment_get h p name else None)
              | None \<Rightarrow> None))
      else None)"
  by pat_completeness auto
termination
  by (relation "measure (\<lambda>(h, e, name). e)") auto

declare Environment_get.simps [simp del]

function Environment_assign :: "'n Environment list \<Rightarrow> nat \<Rightarrow> string \<Rightarrow> 'n Value \<Rightarrow> 'n Environment list option" where
  "Environment_assign h e name v =
     (if e < length h then
        (case bindings (h ! e) name of
           Some old \<Rightarrow> Some (h[e := (h ! e)\<lparr>bindings := (bindings (h ! e))(name \<mapsto> v)\<rparr>])
         | None \<Rightarrow>
             (case parent (h ! e) of
                Some p \<Rightarrow> (if p < e then Environment_assign h p name v else None)
              | None \<Rightarrow> None))
      else None)"
  by pat_completeness auto
termination
  by (relation "measure (\<lambda>(h, e, name, v). e)") auto

declare Environment_assign.simps [simp del]

subsection \<open>Helper methods\<close>

definition isTruthy :: "'n Value \<Rightarrow> bool" where
  "isTruthy v = (case v of Null \<Rightarrow> False | Bool b \<Rightarrow> b | _ \<Rightarrow> True)"

text \<open>
  Strict equality \<^verbatim>\<open>a === b\<close> of two runtime values: values of different types are
  different, two numbers are compared by the host, booleans and strings by their value,
  and two function objects are equal when they are the same object.
\<close>

fun strict_equal :: "'n Host \<Rightarrow> 'n Value \<Rightarrow> 'n Value \<Rightarrow> bool" where
  "strict_equal host Null Null = True"
| "strict_equal host (Bool a) (Bool b) = (a = b)"
| "strict_equal host (Number a) (Number b) = h_eq host a b"
| "strict_equal host (String a) (String b) = (a = b)"
| "strict_equal host (MasalaFunction name ps b lno closure i) (MasalaFunction name' ps' b' lno' closure' j)
     = (i = j)"
| "strict_equal host a b = False"

definition isEqual :: "'n Host \<Rightarrow> 'n Value \<Rightarrow> 'n Value \<Rightarrow> bool" where
  "isEqual host a b =
     (if a = Null \<and> b = Null then True else if a = Null then False else strict_equal host a b)"

text \<open>\<^verbatim>\<open>stringify\<close>; a number is printed by the host's \<^verbatim>\<open>toString()\<close>.\<close>

definition stringify :: "'n Host \<Rightarrow> 'n Value \<Rightarrow> string" where
  "stringify host v =
     (case v of
        Null \<Rightarrow> ''khaali''
      | Bool b \<Rightarrow> (if b then ''sach'' else ''galat'')
      | Number x \<Rightarrow> h_toString host x
      | String s \<Rightarrow> s
      | MasalaFunction name ps b lno c i \<Rightarrow> ''<function '' @ name @ ''>'')"

text \<open>\<^verbatim>\<open>Array.prototype.join(' ')\<close>\<close>

fun join_space :: "string list \<Rightarrow> string" where
  "join_space [] = []"
| "join_space [s] = s"
| "join_space (s # t # rest) = s @ '' '' @ join_space (t # rest)"

subsection \<open>Completions\<close>

text \<open>
  What a method can throw: one of the language's errors, the \<^verbatim>\<open>ReturnValue\<close> that
  carries a function's result, or an error of the host (a \<^verbatim>\<open>TypeError\<close>). A method
  returns the thrown object or its result, together with the interpreter as it has become;
  \<open>None\<close> means that the fuel for nested calls ran out.
\<close>

datatype 'n Thrown = Masala MasalaError | ReturnValue "'n Value" | HostError string

type_synonym ('a, 'n) iresult = "(('n Thrown + 'a) \<times> 'n Interpreter) option"

definition ireturn :: "'a \<Rightarrow> 'n Interpreter \<Rightarrow> ('a, 'n) iresult" where
  "ireturn x S = Some (Inr x, S)"

definition ithrow :: "'n Thrown \<Rightarrow> 'n Interpreter \<Rightarrow> ('a, 'n) iresult" where
  "ithrow t S = Some (Inl t, S)"

definition ibind :: "('a, 'n) iresult \<Rightarrow> ('a \<Rightarrow> 'n Interpreter \<Rightarrow> ('b, 'n) iresult) \<Rightarrow> ('b, 'n) iresult" where
  "ibind m f =
     (case m of
        None \<Rightarrow> None
      | Some (Inl t, S) \<Rightarrow> Some (Inl t, S)
      | Some (Inr x, S) \<Rightarrow> f x S)"

subsection \<open>Expressions\<close>

fun value_of_lit :: "'n Lit \<Rightarrow> 'n Value" where
  "value_of_lit LNull = Null"
| "value_of_lit (LBool b) = Bool b"
| "value_of_lit (LNumber x) = Number x"
| "value_of_lit (LString s) = String s"

text \<open>The \<^verbatim>\<open>switch\<close> of \<^verbatim>\<open>evaluateUnary\<close> on the operator, the operand evaluated.\<close>

definition unary_switch :: "'n Host \<Rightarrow> string \<Rightarrow> 'n Value \<Rightarrow> nat \<Rightarrow> 'n Thrown + 'n Value" where
  "unary_switch host op operand lno =
     (if op = ''-'' then
        (case operand of
           Number x \<Rightarrow> Inr (Number (h_neg host x))
         | _ \<Rightarrow> Inl (Masala (RuntimeError (NOT_A_NUMBER op) (Some lno))))
      else if op = ''!'' then Inr (Bool (\<not> isTruthy operand))
      else Inl (Masala (RuntimeError (INVALID_OPERAND op) (Some lno))))"

text \<open>\<^verbatim>\<open>checkNumberOperands\<close>, handing the two numbers to the continuation.\<close>

definition checkNumberOperands ::
  "string \<Rightarrow> 'n Value \<Rightarrow> 'n Value \<Rightarrow> nat \<Rightarrow> ('n \<Rightarrow> 'n \<Rightarrow> 'n Thrown + 'n Value) \<Rightarrow> 'n Thrown + 'n Value" where
  "checkNumberOperands op left right lno k =
     (case (left, right) of
        (Number a, Number b) \<Rightarrow> k a b
      | _ \<Rightarrow> Inl (Masala (RuntimeError (NOT_A_NUMBER op) (Some lno))))"

definition is_string :: "'n Value \<Rightarrow> bool" where
  "is_string v = (case v of String s \<Rightarrow> True | _ \<Rightarrow> False)"

text \<open>
  The \<^verbatim>\<open>switch\<close> of \<^verbatim>\<open>evaluateBinary\<close> on the operator, both operands evaluated. The
  operators on two numbers are the host's; the test \<^verbatim>\<open>right === 0\<close> is the host's strict
  equality with the number that \<^verbatim>\<open>0\<close> denotes.
\<close>

definition binary_switch :: "'n Host \<Rightarrow> string \<Rightarrow> 'n Value \<Rightarrow> 'n Value \<Rightarrow> nat \<Rightarrow> 'n Thrown + 'n Value" where
  "binary_switch host op left right lno =
     (if op = ''+'' then
        (case (left, right) of
           (Number a, Number b) \<Rightarrow> Inr (Number (h_add host a b))
         | _ \<Rightarrow>
             if is_string left \<or> is_string right
             then Inr (String (stringify host left @ stringify host right))
             else Inl (Masala (RuntimeError (INVALID_OPERAND ''+'') (Some lno))))
      else if op = ''-'' then
        checkNumberOperands op left right lno (\<lambda>a b. Inr (Number (h_sub host a b)))
      else if op = ''*'' then
        checkNumberOperands op left right lno (\<lambda>a b. Inr (Number (h_mul host a b)))
      else if op = ''/'' then
        checkNumberOperands op left right lno (\<lambda>a b.
          if h_eq host b (h_zero host) then Inl (Masala (RuntimeError DIVISION_BY_ZERO (Some lno)))
          else Inr (Number (h_div host a b)))
      else if op = ''%'' then
        checkNumberOperands op left right lno (\<lambda>a b.
          if h_eq host b (h_zero host) then Inl (Masala (RuntimeError DIVISION_BY_ZERO (Some lno)))
          else Inr (Number (h_rem host a b)))
      else if op = ''<'' then
        checkNumberOperands op left right lno (\<lambda>a b. Inr (Bool (h_lt host a b)))
      else if op = ''>'' then
        checkNumberOperands op left right lno (\<lambda>a b. Inr (Bool (h_gt host a b)))
      else if op = ''<='' then
        checkNumberOperands op left right lno (\<lambda>a b. Inr (Bool (h_le host a b)))
      else if op = ''>='' then
        checkNumberOperands op left right lno (\<lambda>a b. Inr (Bool (h_ge host a b)))
      else if op = ''=='' then Inr (Bool (isEqual host left right))
      else if op = ''!='' then Inr (Bool (\<not> isEqual host left right))
      else if op = ''&&'' then Inr (Bool (isTruthy left \<and> isTruthy right))
      else if op = ''||'' then Inr (Bool (isTruthy left \<or> isTruthy right))
      else Inl (Masala (RuntimeError (INVALID_OPERAND op) (Some lno))))"

definition lift_result :: "'n Thrown + 'a \<Rightarrow> 'n Interpreter \<Rightarrow> ('a, 'n) iresult" where
  "lift_result r S = Some (r, S)"

text \<open>
  \<^verbatim>\<open>evaluateCall\<close> after the callee and the arguments are evaluated: the callable check,
  the check of the argument count, and the call. The argument \<open>callf\<close> is the method
  \<^verbatim>\<open>callee.call(this, args)\<close>.
\<close>

definition call_checked ::
  "'n Host \<Rightarrow> ('n Value \<Rightarrow> 'n Value list \<Rightarrow> 'n Interpreter \<Rightarrow> ('n Value, 'n) iresult) \<Rightarrow> string \<Rightarrow> 'n Value \<Rightarrow> 'n Value list \<Rightarrow> nat
     \<Rightarrow> 'n Interpreter \<Rightarrow> ('n Value, 'n) iresult" where
  "call_checked host callf name callee args lno S =
     (case callee of
        MasalaFunction fname ps b fl c i \<Rightarrow>
          if length args \<noteq> length ps
          then ithrow (Masala (RuntimeError (WRONG_ARG_COUNT name (length ps) (length args)) (Some lno))) S
          else callf callee args S
      | _ \<Rightarrow> ithrow (Masala (RuntimeError (NOT_A_FUNCTION name) (Some lno))) S)"

fun evaluate ::
    "'n Host \<Rightarrow> ('n Value \<Rightarrow> 'n Value list \<Rightarrow> 'n Interpreter \<Rightarrow> ('n Value, 'n) iresult) \<Rightarrow> 'n Expr \<Rightarrow> 'n Interpreter \<Rightarrow> ('n Value, 'n) iresult"
  and evaluate_all ::
    "'n Host \<Rightarrow> ('n Value \<Rightarrow> 'n Value list \<Rightarrow> 'n Interpreter \<Rightarrow> ('n Value, 'n) iresult) \<Rightarrow> 'n Expr list \<Rightarrow> 'n Interpreter
       \<Rightarrow> ('n Value list, 'n) iresult" where
  "evaluate host callf (Literal v lno) S = ireturn (value_of_lit v) S"
| "evaluate host callf (Identifier name lno) S =
     (case Environment_get (heap S) (environment S) name of
        Some v \<Rightarrow> ireturn v S
      | None \<Rightarrow> ithrow (Masala (RuntimeError (UNDEFINED_VARIABLE name) (Some lno))) S)"
| "evaluate host callf (Grouping e lno) S = evaluate host callf e S"
| "evaluate host callf (UnaryExpression op e lno) S =
     ibind (evaluate host callf e S) (\<lambda>operand S1. lift_result (unary_switch host op operand lno) S1)"
| "evaluate host callf (BinaryExpression op l r lno) S =
     ibind (evaluate host callf l S) (\<lambda>left S1.
     ibind (evaluate host callf r S1) (\<lambda>right S2.
     lift_result (binary_switch host op left right lno) S2))"
| "evaluate host callf (CallExpression name args lno) S =
     (case Environment_get (heap S) (environment S) name of
        None \<Rightarrow> ithrow (Masala (RuntimeError (UNDEFINED_FUNCTION name) (Some lno))) S
      | Some callee \<Rightarrow>
          ibind (evaluate_all host callf args S) (\<lambda>vs S1. call_checked host callf name callee vs lno S1))"
| "evaluate host callf (Assignment name e lno) S =
     ibind (evaluate host callf e S) (\<lambda>v S1.
       case Environment_assign (heap S1) (environment S1) name v of
         Some h \<Rightarrow> ireturn v (S1\<lparr>heap := h\<rparr>)
       | None \<Rightarrow> ithrow (Masala (RuntimeError (UNDEFINED_VARIABLE name) (Some lno))) S1)"
| "evaluate_all host callf [] S = ireturn [] S"
| "evaluate_all host callf (e # es) S =
     ibind (evaluate host callf e S) (\<lambda>v S1.
     ibind (evaluate_all host callf es S1) (\<lambda>vs S2. ireturn (v # vs) S2))"

subsection \<open>Statements\<close>

text \<open>
  The loop over the statements of a program or block; \<open>ex\<close> is the method
  \<^verbatim>\<open>executeStatement\<close>.
\<close>

primrec executeStatements ::
  "('n Stmt \<Rightarrow> 'n Interpreter \<Rightarrow> (unit, 'n) iresult) \<Rightarrow> 'n Stmt list \<Rightarrow> 'n Interpreter \<Rightarrow> (unit, 'n) iresult" where
  "executeStatements ex [] S = ireturn () S"
| "executeStatements ex (s # ss) S = ibind (ex s S) (\<lambda>u S1. executeStatements ex ss S1)"

text \<open>
  \<^verbatim>\<open>executeBlock(node, environment)\<close>: the statements run with the given environment as
  the current one, and the \<^verbatim>\<open>finally\<close> clause puts the previous one back, whether the
  block completes or throws.
\<close>

definition executeBlock ::
  "('n Stmt \<Rightarrow> 'n Interpreter \<Rightarrow> (unit, 'n) iresult) \<Rightarrow> 'n Stmt list \<Rightarrow> nat \<Rightarrow> 'n Interpreter \<Rightarrow> (unit, 'n) iresult" where
  "executeBlock ex stmts env S =
     (let previous = environment S in
      case executeStatements ex stmts (S\<lparr>environment := env\<rparr>) of
        None \<Rightarrow> None
      | Some (r, S1) \<Rightarrow> Some (r, S1\<lparr>environment := previous\<rparr>))"

text \<open>\<^verbatim>\<open>this.executeBlock(node, new Environment(this.environment))\<close>\<close>

definition executeBlock_fresh ::
  "('n Stmt \<Rightarrow> 'n Interpreter \<Rightarrow> (unit, 'n) iresult) \<Rightarrow> 'n Stmt list \<Rightarrow> 'n Interpreter \<Rightarrow> (unit, 'n) iresult" where
  "executeBlock_fresh ex stmts S =
     (case new_Environment (environment S) S of (env, S1) \<Rightarrow> executeBlock ex stmts env S1)"

text \<open>
  The loop of \<^verbatim>\<open>executeIfStatement\<close> over the conditions, with the consequents that are
  left, and then the alternate. A condition without a consequent cannot come from the
  parser; there \<^verbatim>\<open>executeBlock\<close> reads \<^verbatim>\<open>undefined.statements\<close> and the host throws a
  \<^verbatim>\<open>TypeError\<close>, the new environment already made.
\<close>

primrec if_loop ::
  "'n Host \<Rightarrow> ('n Value \<Rightarrow> 'n Value list \<Rightarrow> 'n Interpreter \<Rightarrow> ('n Value, 'n) iresult) \<Rightarrow> ('n Stmt \<Rightarrow> 'n Interpreter \<Rightarrow> (unit, 'n) iresult)
     \<Rightarrow> 'n Expr list \<Rightarrow> 'n Stmt list list \<Rightarrow> 'n Stmt list option \<Rightarrow> 'n Interpreter \<Rightarrow> (unit, 'n) iresult" where
  "if_loop host callf ex [] consequents alternate S =
     (case alternate of
        Some alt \<Rightarrow> executeBlock_fresh ex alt S
      | None \<Rightarrow> ireturn () S)"
| "if_loop host callf ex (c # cs) consequents alternate S =
     ibind (evaluate host callf c S) (\<lambda>v S1.
       if isTruthy v then
         (case consequents of
            b # bs \<Rightarrow> executeBlock_fresh ex b S1
          | [] \<Rightarrow>
              (case new_Environment (environment S1) S1 of
                 (env, S2) \<Rightarrow> ithrow (HostError ''TypeError'') S2))
       else if_loop host callf ex cs (tl consequents) alternate S1)"

definition maxIterations :: nat where
  "maxIterations = 100000"

text \<open>
  The loop of \<^verbatim>\<open>executeWhileStatement\<close>. The argument \<open>remaining\<close> is
  \<^verbatim>\<open>maxIterations - iterations\<close>: the body runs as long as the condition is truthy and
  the count of its runs is below the limit; a truthy condition after that throws.
\<close>

primrec while_loop ::
  "'n Host \<Rightarrow> ('n Value \<Rightarrow> 'n Value list \<Rightarrow> 'n Interpreter \<Rightarrow> ('n Value, 'n) iresult) \<Rightarrow> ('n Stmt \<Rightarrow> 'n Interpreter \<Rightarrow> (unit, 'n) iresult)
     \<Rightarrow> 'n Expr \<Rightarrow> 'n Stmt list \<Rightarrow> nat \<Rightarrow> nat \<Rightarrow> 'n Interpreter \<Rightarrow> (unit, 'n) iresult" where
  "while_loop host callf ex condition b lno 0 S =
     ibind (evaluate host callf condition S) (\<lambda>v S1.
       if isTruthy v
       then ithrow (Masala (RuntimeError
              ''Loop limit exceeded - possible infinite loop detected!'' (Some lno))) S1
       else ireturn () S1)"
| "while_loop host callf ex condition b lno (Suc remaining) S =
     ibind (evaluate host callf condition S) (\<lambda>v S1.
       if isTruthy v
       then ibind (executeBlock_fresh ex b S1) (\<lambda>u S2.
              while_loop host callf ex condition b lno remaining S2)
       else ireturn () S1)"

lemma executeStatements_cong [fundef_cong]:
  assumes "stmts = stmts'" and "S = S'"
    and "\<And>s T. s \<in> set stmts' \<Longrightarrow> ex s T = ex' s T"
  shows "executeStatements ex stmts S = executeStatements ex' stmts' S'"
  unfolding assms(1,2) using assms(3)
proof (induction stmts' arbitrary: S')
  case Nil
  show ?case by simp
next
  case (Cons s ss)
  then show ?case by (simp add: ibind_def split: option.splits sum.splits prod.splits)
qed

lemma executeBlock_cong [fundef_cong]:
  assumes "stmts = stmts'" and "env = env'" and "S = S'"
    and "\<And>s T. s \<in> set stmts' \<Longrightarrow> ex s T = ex' s T"
  shows "executeBlock ex stmts env S = executeBlock ex' stmts' env' S'"
  unfolding executeBlock_def assms(1,2,3)
  using executeStatements_cong [OF refl refl assms(4), of stmts']
  by simp

lemma executeBlock_fresh_cong [fundef_cong]:
  assumes "stmts = stmts'" and "S = S'"
    and "\<And>s T. s \<in> set stmts' \<Longrightarrow> ex s T = ex' s T"
  shows "executeBlock_fresh ex stmts S = executeBlock_fresh ex' stmts' S'"
  unfolding executeBlock_fresh_def assms(1,2)
  using executeBlock_cong [OF refl refl refl assms(3), of stmts']
  by (simp split: prod.splits)

lemma if_loop_cong [fundef_cong]:
  assumes "conditions = conditions'" and "consequents = consequents'"
    and "alternate = alternate'" and "S = S'"
    and "\<And>s b T. b \<in> set consequents' \<Longrightarrow> s \<in> set b \<Longrightarrow> ex s T = ex' s T"
    and "\<And>s alt T. alternate' = Some alt \<Longrightarrow> s \<in> set alt \<Longrightarrow> ex s T = ex' s T"
  shows "if_loop host callf ex conditions consequents alternate S
         = if_loop host callf ex' conditions' consequents' alternate' S'"
  unfolding assms(1,2,3,4) using assms(5,6)
proof (induction conditions' arbitrary: consequents' S')
  case Nil
  then show ?case
    by (auto split: option.splits intro!: executeBlock_fresh_cong)
next
  case (Cons c cs)
  have tl: "\<And>b. b \<in> set (tl consequents') \<Longrightarrow> b \<in> set consequents'"
    by (cases consequents') auto
  have rec: "if_loop host callf ex cs (tl consequents') alternate'
               = if_loop host callf ex' cs (tl consequents') alternate'"
    by (rule ext, rule Cons.IH) (auto intro: Cons.prems dest: tl)
  have hd: "\<And>b bs. consequents' = b # bs \<Longrightarrow>
               executeBlock_fresh ex b = executeBlock_fresh ex' b"
    by (rule ext, rule executeBlock_fresh_cong) (auto intro: Cons.prems)
  show ?case
  proof (cases consequents')
    case Nil
    from rec show ?thesis unfolding Nil by (simp cong: if_cong)
  next
    case (Cons b bs)
    from rec hd [OF Cons] show ?thesis unfolding Cons by (simp cong: if_cong)
  qed
qed

lemma while_loop_cong [fundef_cong]:
  assumes "b = b'" and "remaining = remaining'" and "S = S'"
    and "\<And>s T. s \<in> set b' \<Longrightarrow> ex s T = ex' s T"
  shows "while_loop host callf ex condition b lno remaining S
         = while_loop host callf ex' condition b' lno remaining' S'"
  unfolding assms(1,2,3)
proof (induction remaining' arbitrary: S')
  case 0
  show ?case by simp
next
  case (Suc k)
  have blk: "executeBlock_fresh ex b' = executeBlock_fresh ex' b'"
    by (rule ext, rule executeBlock_fresh_cong) (auto intro: assms(4))
  have rec: "while_loop host callf ex condition b' lno k = while_loop host callf ex' condition b' lno k"
    by (rule ext, rule Suc.IH)
  show ?case by (simp add: blk rec cong: if_cong)
qed

text \<open>
  \<^verbatim>\<open>executeStatement\<close>. A statement of a type without a case of its own (a break
  statement) reaches the default branch, which throws a runtime error.
\<close>

function executeStatement ::
  "'n Host \<Rightarrow> ('n Value \<Rightarrow> 'n Value list \<Rightarrow> 'n Interpreter \<Rightarrow> ('n Value, 'n) iresult) \<Rightarrow> 'n Stmt \<Rightarrow> 'n Interpreter \<Rightarrow> (unit, 'n) iresult" where
  "executeStatement host callf (VariableDeclaration name e lno) S =
     ibind (evaluate host callf e S) (\<lambda>v S1.
       ireturn () (Environment_define (environment S1) name v S1))"
| "executeStatement host callf (PrintStatement es lno) S =
     ibind (evaluate_all host callf es S) (\<lambda>vs S1.
       ireturn () (S1\<lparr>output_lines := output_lines S1 @ [join_space (map (stringify host) vs)]\<rparr>))"
| "executeStatement host callf (IfStatement conditions consequents alternate lno) S =
     if_loop host callf (executeStatement host callf) conditions consequents alternate S"
| "executeStatement host callf (WhileStatement condition b lno) S =
     while_loop host callf (executeStatement host callf) condition b lno maxIterations S"
| "executeStatement host callf (BreakStatement lno) S =
     ithrow (Masala (RuntimeError ''Unknown statement type: BreakStatement'' (Some lno))) S"
| "executeStatement host callf (FunctionDeclaration name ps b lno) S =
     ireturn () (Environment_define (environment S) name
                   (MasalaFunction name ps b lno (environment S) (function_objects S))
                   (S\<lparr>function_objects := function_objects S + 1\<rparr>))"
| "executeStatement host callf (ReturnStatement v lno) S =
     (case v of
        None \<Rightarrow> ithrow (ReturnValue Null) S
      | Some e \<Rightarrow> ibind (evaluate host callf e S) (\<lambda>x S1. ithrow (ReturnValue x) S1))"
| "executeStatement host callf (ExpressionStatement e lno) S =
     ibind (evaluate host callf e S) (\<lambda>v S1. ireturn () S1)"
| "executeStatement host callf (Block stmts) S =
     executeBlock_fresh (executeStatement host callf) stmts S"
  by pat_completeness auto
termination
proof (relation "measure (\<lambda>(host, callf, s, S). size s)", goal_cases)
  case 1
  show ?case by simp
next
  case (2 host callf conditions consequents alternate lno S s b T)
  have "size_list size b \<le> size_list (size_list size) consequents"
    using 2(1) by (simp add: size_list_estimation')
  moreover have "size s \<le> size_list size b"
    using 2(2) by (simp add: size_list_estimation')
  ultimately show ?case by simp
next
  case (3 host callf conditions consequents alternate lno S s alt T)
  have "size s \<le> size_list size alt"
    using 3(2) by (simp add: size_list_estimation')
  with 3(1) show ?case by simp
next
  case (4 host callf condition b lno S s T)
  have "size s \<le> size_list size b"
    using 4 by (simp add: size_list_estimation')
  then show ?case by simp
next
  case (5 host callf stmts S s T)
  have "size s \<le> size_list size stmts"
    using 5 by (simp add: size_list_estimation')
  then show ?case by simp
qed

subsection \<open>Function values\<close>

text \<open>
  The loop of \<^verbatim>\<open>MasalaFunction.call\<close> over the parameters: parameter \<open>i\<close> is bound to
  \<^verbatim>\<open>args[i]\<close>, or to \<^verbatim>\<open>null\<close> where the argument list is too short.
\<close>

fun bind_params :: "nat \<Rightarrow> string list \<Rightarrow> 'n Value list \<Rightarrow> 'n Interpreter \<Rightarrow> 'n Interpreter" where
  "bind_params env [] args S = S"
| "bind_params env (p # ps) args S =
     bind_params env ps (tl args)
       (Environment_define env p (case args of [] \<Rightarrow> Null | a # rest \<Rightarrow> a) S)"

text \<open>
  \<^verbatim>\<open>MasalaFunction.call(interpreter, args)\<close>: a new environment whose parent is the
  closure, the parameters bound in it, the body run in it; a thrown \<^verbatim>\<open>ReturnValue\<close> is
  the result, anything else thrown goes on, and a body that completes gives \<^verbatim>\<open>null\<close>.
\<close>

definition MasalaFunction_call ::
  "'n Host \<Rightarrow> ('n Value \<Rightarrow> 'n Value list \<Rightarrow> 'n Interpreter \<Rightarrow> ('n Value, 'n) iresult) \<Rightarrow> 'n Value \<Rightarrow> 'n Value list \<Rightarrow> 'n Interpreter
     \<Rightarrow> ('n Value, 'n) iresult" where
  "MasalaFunction_call host callf f args S =
     (case f of
        MasalaFunction name ps b lno closure i \<Rightarrow>
          (case new_Environment closure S of
             (env, S1) \<Rightarrow>
               (case executeBlock (executeStatement host callf) b env (bind_params env ps args S1) of
                  None \<Rightarrow> None
                | Some (Inl (ReturnValue v), S2) \<Rightarrow> Some (Inr v, S2)
                | Some (Inl t, S2) \<Rightarrow> Some (Inl t, S2)
                | Some (Inr u, S2) \<Rightarrow> Some (Inr Null, S2)))
      | _ \<Rightarrow> ithrow (HostError ''TypeError'') S)"

text \<open>
  Calls nest without a bound in the source; the fuel bounds the depth of nested calls.
\<close>

primrec call_fuel :: "'n Host \<Rightarrow> nat \<Rightarrow> 'n Value \<Rightarrow> 'n Value list \<Rightarrow> 'n Interpreter \<Rightarrow> ('n Value, 'n) iresult" where
  "call_fuel host 0 f args S = None"
| "call_fuel host (Suc n) f args S = MasalaFunction_call host (call_fuel host n) f args S"

text \<open>
  \<^verbatim>\<open>execute(ast)\<close>: the output list and the current environment are reset, the store and
  the global environment in it are kept as they are.
\<close>

definition execute :: "'n Host \<Rightarrow> nat \<Rightarrow> 'n Program \<Rightarrow> 'n Interpreter \<Rightarrow> (string list, 'n) iresult" where
  "execute host n ast S =
     (case executeStatements (executeStatement host (call_fuel host n)) (body ast)
             (S\<lparr>output_lines := [], environment := globals S\<rparr>) of
        None \<Rightarrow> None
      | Some (Inl t, S1) \<Rightarrow> Some (Inl t, S1)
      | Some (Inr u, S1) \<Rightarrow> Some (Inr (output_lines S1), S1))"

section \<open>The compiler class (masalascript.js)\<close>

text \<open>
  A \<^verbatim>\<open>MasalaScript\<close> object with the default options. It keeps one interpreter for all
  its runs, and the artefacts of the last run: the fields \<^verbatim>\<open>tokens\<close>, \<^verbatim>\<open>ast\<close>,
  \<^verbatim>\<open>output\<close> and \<^verbatim>\<open>errors\<close>, here with the prefix \<open>m_\<close>. The lexer and the parser are
  created anew in every run and the analyser resets itself, so they carry nothing from one
  run to the next.
\<close>

record 'n MasalaScript =
  interpreter :: "'n Interpreter"
  m_tokens :: "'n Token list"
  m_ast :: "'n Program option"
  m_output :: "string list"
  m_errors :: "'n Thrown list"

definition new_MasalaScript :: "'n MasalaScript" where
  "new_MasalaScript =
     \<lparr>interpreter = new_Interpreter, m_tokens = [], m_ast = None, m_output = [], m_errors = []\<rparr>"

text \<open>
  The result object of a run: \<^verbatim>\<open>success\<close> with the output, or the thrown object (the
  field \<^verbatim>\<open>errorObject\<close>).
\<close>

datatype 'n RunResult = Success "string list" | Failure "'n Thrown"

text \<open>
  \<^verbatim>\<open>run(source)\<close>: the result object and the instance after the run. The four artefacts
  are reset first; each step stores its result, and the \<^verbatim>\<open>catch\<close> clause stores what was
  thrown. The fuel bounds the parser's recursion and the depth of nested calls.
\<close>

definition run :: "'n Host \<Rightarrow> nat \<Rightarrow> string \<Rightarrow> 'n MasalaScript \<Rightarrow> ('n RunResult \<times> 'n MasalaScript) option" where
  "run host n src M =
     (let M0 = M\<lparr>m_tokens := [], m_ast := None, m_output := [], m_errors := []\<rparr> in
      case tokenize host src of
        Inl e \<Rightarrow> Some (Failure (Masala e), M0\<lparr>m_errors := [Masala e]\<rparr>)
      | Inr toks \<Rightarrow>
          (let M1 = M0\<lparr>m_tokens := toks\<rparr> in
           case parse n toks of
             None \<Rightarrow> None
           | Some (Inl e) \<Rightarrow> Some (Failure (Masala e), M1\<lparr>m_errors := [Masala e]\<rparr>)
           | Some (Inr ast) \<Rightarrow>
               (let M2 = M1\<lparr>m_ast := Some ast\<rparr> in
                case analyze ast of
                  Inl e \<Rightarrow> Some (Failure (Masala e), M2\<lparr>m_errors := [Masala e]\<rparr>)
                | Inr ast1 \<Rightarrow>
                    (case execute host n ast (interpreter M2) of
                       None \<Rightarrow> None
                     | Some (Inl t, S) \<Rightarrow>
                         Some (Failure t, M2\<lparr>interpreter := S, m_errors := [t]\<rparr>)
                     | Some (Inr out, S) \<Rightarrow>
                         Some (Success out, M2\<lparr>interpreter := S, m_output := out\<rparr>)))))"

section \<open>A host with exact arithmetic\<close>

text \<open>
  The theorems below hold for every host. Where an example is run, it is run on the host of
  this section: its numbers are the real numbers, its operators compute exactly, a numeral
  is read as the decimal fraction it spells, and a number is printed in decimal notation.
  It is an instance of the record of host operations and not the arithmetic of
  JavaScript's doubles, which rounds.
\<close>

definition digit_value :: "char \<Rightarrow> nat" where
  "digit_value c = of_char c - 48"

definition parse_digits :: "string \<Rightarrow> nat" where
  "parse_digits ds = foldl (\<lambda>acc c. acc * 10 + digit_value c) 0 ds"

definition decimal_value :: "string \<Rightarrow> real" where
  "decimal_value s =
     (let ip = takeWhile isDigit s; fp = takeWhile isDigit (drop (Suc (length ip)) s)
      in of_nat (parse_digits ip) + of_nat (parse_digits fp) / 10 ^ length fp)"

fun frac_digits :: "nat \<Rightarrow> real \<Rightarrow> string" where
  "frac_digits 0 r = []"
| "frac_digits (Suc k) r =
     (if r = 0 then []
      else (let d = nat \<lfloor>r * 10\<rfloor> in char_of (48 + d) # frac_digits k (r * 10 - of_nat d)))"

definition decimal_string :: "real \<Rightarrow> string" where
  "decimal_string x =
     (let a = \<bar>x\<bar>; ip = nat \<lfloor>a\<rfloor>; fp = a - of_nat ip in
      (if x < 0 then ''-'' else []) @ nat_to_string ip
        @ (if fp = 0 then [] else ''.'' @ frac_digits 17 fp))"

text \<open>The remainder whose sign follows the dividend.\<close>

definition truncated_remainder :: "real \<Rightarrow> real \<Rightarrow> real" where
  "truncated_remainder a b = a - b * of_int (if a / b < 0 then \<lceil>a / b\<rceil> else \<lfloor>a / b\<rfloor>)"

definition exact_host :: "real Host" where
  "exact_host =
     \<lparr>h_parseFloat = decimal_value, h_isNaN = (\<lambda>x. False), h_toString = decimal_string,
      h_add = (+), h_sub = (-), h_mul = (*), h_div = (/), h_rem = truncated_remainder,
      h_neg = uminus, h_lt = (<), h_gt = (>), h_le = (\<le>), h_ge = (\<ge>), h_eq = (=),
      h_zero = 0\<rparr>"

section \<open>The steps of an if statement\<close>

lemma if_step:
  assumes "evaluate host callf e S = Some (Inr v, S1)"
  shows "executeStatement host callf (IfStatement (e # cs) (A # bs) alt lno) S =
           (if isTruthy v
            then (case executeStatements (executeStatement host callf) A
                         (S1\<lparr>heap := heap S1 @ [\<lparr>bindings = Map.empty, parent = Some (environment S1)\<rparr>],
                             environment := length (heap S1)\<rparr>) of
                    None \<Rightarrow> None
                  | Some (r, S2) \<Rightarrow> Some (r, S2\<lparr>environment := environment S1\<rparr>))
            else executeStatement host callf (IfStatement cs bs alt lno) S1)"
  using assms
  by (simp add: ibind_def executeBlock_fresh_def executeBlock_def new_Environment_def
        cong: option.case_cong)

lemma if_end:
  "executeStatement host callf (IfStatement [] bs alt lno) S1 =
     (case alt of
        None \<Rightarrow> Some (Inr (), S1)
      | Some B \<Rightarrow>
          (case executeStatements (executeStatement host callf) B
                  (S1\<lparr>heap := heap S1 @ [\<lparr>bindings = Map.empty, parent = Some (environment S1)\<rparr>],
                      environment := length (heap S1)\<rparr>) of
             None \<Rightarrow> None
           | Some (r, S2) \<Rightarrow> Some (r, S2\<lparr>environment := environment S1\<rparr>)))"
  by (simp add: ireturn_def executeBlock_fresh_def executeBlock_def new_Environment_def
        cong: option.case_cong split: option.splits)

lemma print_block:
  "(case executeStatements (executeStatement host callf) [PrintStatement [Literal (LString a) la] pa]
           (S1\<lparr>heap := h, environment := k\<rparr>) of
      None \<Rightarrow> None
    | Some (r, S2) \<Rightarrow> Some (r, S2\<lparr>environment := environment S1\<rparr>))
   = Some (Inr (), S1\<lparr>heap := h, output_lines := output_lines S1 @ [a]\<rparr>)"
  by (simp add: ibind_def ireturn_def stringify_def)

section \<open>Claims\<close>

text \<open>
  C4 (string escapes). The lexer rewrites the escapes one pattern after the other, the
  pattern for backslash-n first and the pattern for a doubled backslash last. On the source
  literal of a quote, two backslashes, the letter n and a quote, the first pass already
  takes the second backslash together with the n for a newline escape, so the token's
  value is a backslash followed by a newline character, not a backslash followed by the
  letter n.
\<close>

theorem C4_escaped_backslash_then_n:
  "tokenize host [CHR 0x22, CHR 0x5C, CHR 0x5C, CHR ''n'', CHR 0x22] =
     Inr [\<lparr>ttype = STRING,
            lexeme = [CHR 0x22, CHR 0x5C, CHR 0x5C, CHR ''n'', CHR 0x22],
            literal = StringLiteral [CHR 0x5C, CHR 0x0A], tline = 1, tcolumn = 1\<rparr>,
          \<lparr>ttype = EOF, lexeme = [], literal = NoLiteral, tline = 1, tcolumn = 6\<rparr>]"
  by (simp add: lexer_eval)

text \<open>
  C7, as the claim words it, fails on the message. With the divisor zero both operators
  throw a runtime error, and its message is the text of \<^verbatim>\<open>ErrorMessages.DIVISION_BY_ZERO\<close>,
  which is not \<^verbatim>\<open>Division by zero\<close>.
\<close>

theorem C7_message_is_not_division_by_zero:
  "evaluate exact_host (call_fuel exact_host 0)
       (BinaryExpression ''/'' (Literal (LNumber 10) 1) (Literal (LNumber 0) 1) 1) new_Interpreter
     = Some (Inl (Masala (RuntimeError ''Zero se divide? Yeh toh impossible hai bhai!'' (Some 1))),
             new_Interpreter)
   \<and> evaluate exact_host (call_fuel exact_host 0)
       (BinaryExpression ''%'' (Literal (LNumber 10) 1) (Literal (LNumber 0) 1) 1) new_Interpreter
     = Some (Inl (Masala (RuntimeError ''Zero se divide? Yeh toh impossible hai bhai!'' (Some 1))),
             new_Interpreter)
   \<and> ''Zero se divide? Yeh toh impossible hai bhai!'' \<noteq> ''Division by zero''"
  by (simp add: ibind_def ireturn_def lift_result_def binary_switch_def checkNumberOperands_def
        exact_host_def DIVISION_BY_ZERO_def)

text \<open>
  C7 (division by zero), amended. Let the operands of \<^verbatim>\<open>/\<close> or \<^verbatim>\<open>%\<close> evaluate to the
  numbers \<open>n\<close> and \<open>d\<close>. If \<open>d\<close> is strictly equal to zero (the host's \<^verbatim>\<open>d === 0\<close>), the
  expression throws the runtime error with the message
  \<^verbatim>\<open>Zero se divide? Yeh toh impossible hai bhai!\<close> and the line of the expression. For
  every other divisor it throws nothing and returns the number that the host's operator
  gives: \<^verbatim>\<open>n / d\<close> for the quotient, \<^verbatim>\<open>n % d\<close> for the remainder. This holds on every
  host.
\<close>

theorem C7_division_raises_iff_zero_divisor:
  assumes "evaluate host callf l S = Some (Inr (Number n), S1)"
    and "evaluate host callf r S1 = Some (Inr (Number d), S2)"
  shows "evaluate host callf (BinaryExpression ''/'' l r lno) S =
           Some (if h_eq host d (h_zero host)
                 then Inl (Masala (RuntimeError ''Zero se divide? Yeh toh impossible hai bhai!''
                                     (Some lno)))
                 else Inr (Number (h_div host n d)), S2)
       \<and> evaluate host callf (BinaryExpression ''%'' l r lno) S =
           Some (if h_eq host d (h_zero host)
                 then Inl (Masala (RuntimeError ''Zero se divide? Yeh toh impossible hai bhai!''
                                     (Some lno)))
                 else Inr (Number (h_rem host n d)), S2)"
  using assms
  by (simp add: ibind_def lift_result_def binary_switch_def checkNumberOperands_def
        DIVISION_BY_ZERO_def)

theorem C7_division_witness:
  "evaluate exact_host (call_fuel exact_host 0)
       (BinaryExpression ''/'' (Literal (LNumber 10) 2)
          (BinaryExpression ''-'' (Literal (LNumber 2) 2) (Literal (LNumber 2) 2) 2) 2) new_Interpreter
     = Some (Inl (Masala (RuntimeError ''Zero se divide? Yeh toh impossible hai bhai!'' (Some 2))),
             new_Interpreter)
   \<and> evaluate exact_host (call_fuel exact_host 0)
       (BinaryExpression ''%'' (Literal (LNumber 10) 2)
          (BinaryExpression ''-'' (Literal (LNumber 2) 2) (Literal (LNumber 2) 2) 2) 2) new_Interpreter
     = Some (Inl (Masala (RuntimeError ''Zero se divide? Yeh toh impossible hai bhai!'' (Some 2))),
             new_Interpreter)
   \<and> evaluate exact_host (call_fuel exact_host 0)
       (BinaryExpression ''/'' (Literal (LNumber 7) 1) (Literal (LNumber 2) 1) 1) new_Interpreter
     = Some (Inr (Number (7 / 2)), new_Interpreter)
   \<and> evaluate exact_host (call_fuel exact_host 0)
       (BinaryExpression ''%'' (Literal (LNumber 7) 1) (Literal (LNumber 2) 1) 1) new_Interpreter
     = Some (Inr (Number 1), new_Interpreter)"
  using C7_division_raises_iff_zero_divisor
          [of exact_host "call_fuel exact_host 0" "Literal (LNumber 10) 2" new_Interpreter 10
              new_Interpreter
              "BinaryExpression ''-'' (Literal (LNumber 2) 2) (Literal (LNumber 2) 2) 2" 0
              new_Interpreter 2]
        C7_division_raises_iff_zero_divisor
          [of exact_host "call_fuel exact_host 0" "Literal (LNumber 7) 1" new_Interpreter 7
              new_Interpreter "Literal (LNumber 2) 1" 2 new_Interpreter 1]
  by (simp add: ireturn_def ibind_def lift_result_def binary_switch_def checkNumberOperands_def
        exact_host_def truncated_remainder_def)

text \<open>
  C8 (truthiness). Let the expression \<open>e\<close> evaluate to the value \<open>v\<close>. The value is falsy
  exactly when it is \<^verbatim>\<open>null\<close> or the boolean false, so every number, zero among them,
  and the empty string are truthy. Unary \<^verbatim>\<open>!\<close> on \<open>e\<close> returns the negation of the
  truthiness of \<open>v\<close>. An \<^verbatim>\<open>if\<close> statement whose first condition is \<open>e\<close> runs the
  statements of its first consequent, in a new environment below the current one, if \<open>v\<close>
  is truthy, and no other branch; if \<open>v\<close> is falsy it goes on as the \<^verbatim>\<open>if\<close> statement of
  the conditions and consequents that are left, and with none left it runs the statements
  of the alternate, or nothing if there is no alternate. With a print statement as the
  consequent and another as the alternate, the output grows by the consequent's line if
  \<open>v\<close> is truthy and by the alternate's line otherwise; without an alternate it grows by
  the consequent's line if \<open>v\<close> is truthy and the statement changes nothing otherwise.
\<close>

theorem C8_truthiness:
  assumes "evaluate host callf e S = Some (Inr v, S1)"
  shows "(\<not> isTruthy v \<longleftrightarrow> v = Null \<or> v = Bool False)
       \<and> isTruthy (Number x) \<and> isTruthy (String [])
       \<and> evaluate host callf (UnaryExpression ''!'' e lno) S = Some (Inr (Bool (\<not> isTruthy v)), S1)
       \<and> executeStatement host callf (IfStatement (e # cs) (A # bs) alt lno) S =
           (if isTruthy v
            then (case executeStatements (executeStatement host callf) A
                         (S1\<lparr>heap := heap S1 @ [\<lparr>bindings = Map.empty, parent = Some (environment S1)\<rparr>],
                             environment := length (heap S1)\<rparr>) of
                    None \<Rightarrow> None
                  | Some (r, S2) \<Rightarrow> Some (r, S2\<lparr>environment := environment S1\<rparr>))
            else executeStatement host callf (IfStatement cs bs alt lno) S1)
       \<and> executeStatement host callf (IfStatement [] bs None lno) S1 = Some (Inr (), S1)
       \<and> executeStatement host callf (IfStatement [] bs (Some B) lno) S1 =
           (case executeStatements (executeStatement host callf) B
                   (S1\<lparr>heap := heap S1 @ [\<lparr>bindings = Map.empty, parent = Some (environment S1)\<rparr>],
                       environment := length (heap S1)\<rparr>) of
              None \<Rightarrow> None
            | Some (r, S2) \<Rightarrow> Some (r, S2\<lparr>environment := environment S1\<rparr>))
       \<and> executeStatement host callf
             (IfStatement [e] [[PrintStatement [Literal (LString a) la] pa]]
                (Some [PrintStatement [Literal (LString b) lb] pb]) lno) S =
           Some (Inr (),
                 S1\<lparr>heap := heap S1 @ [\<lparr>bindings = Map.empty, parent = Some (environment S1)\<rparr>],
                    output_lines := output_lines S1 @ [if isTruthy v then a else b]\<rparr>)
       \<and> executeStatement host callf
             (IfStatement [e] [[PrintStatement [Literal (LString a) la] pa]] None lno) S =
           Some (Inr (),
                 if isTruthy v
                 then S1\<lparr>heap := heap S1 @ [\<lparr>bindings = Map.empty, parent = Some (environment S1)\<rparr>],
                         output_lines := output_lines S1 @ [a]\<rparr>
                 else S1)"
proof -
  have 1: "\<not> isTruthy v \<longleftrightarrow> v = Null \<or> v = Bool False"
    by (cases v) (simp_all add: isTruthy_def)
  have 2: "isTruthy (Number x) \<and> isTruthy (String [])"
    by (simp add: isTruthy_def)
  have 3: "evaluate host callf (UnaryExpression ''!'' e lno) S = Some (Inr (Bool (\<not> isTruthy v)), S1)"
    using assms by (simp add: ibind_def lift_result_def unary_switch_def)
  note 4 = if_step [OF assms, of cs A bs alt lno]
  have 5: "executeStatement host callf (IfStatement [] bs None lno) S1 = Some (Inr (), S1)"
    by (simp only: if_end option.case)
  have 6: "executeStatement host callf (IfStatement [] bs (Some B) lno) S1 =
           (case executeStatements (executeStatement host callf) B
                   (S1\<lparr>heap := heap S1 @ [\<lparr>bindings = Map.empty, parent = Some (environment S1)\<rparr>],
                       environment := length (heap S1)\<rparr>) of
              None \<Rightarrow> None
            | Some (r, S2) \<Rightarrow> Some (r, S2\<lparr>environment := environment S1\<rparr>))"
    by (simp only: if_end option.case)
  have 7: "executeStatement host callf
             (IfStatement [e] [[PrintStatement [Literal (LString a) la] pa]]
                (Some [PrintStatement [Literal (LString b) lb] pb]) lno) S =
           Some (Inr (),
                 S1\<lparr>heap := heap S1 @ [\<lparr>bindings = Map.empty, parent = Some (environment S1)\<rparr>],
                    output_lines := output_lines S1 @ [if isTruthy v then a else b]\<rparr>)"
    unfolding if_step [OF assms] if_end option.case print_block by simp
  have 8: "executeStatement host callf
             (IfStatement [e] [[PrintStatement [Literal (LString a) la] pa]] None lno) S =
           Some (Inr (),
                 if isTruthy v
                 then S1\<lparr>heap := heap S1 @ [\<lparr>bindings = Map.empty, parent = Some (environment S1)\<rparr>],
                         output_lines := output_lines S1 @ [a]\<rparr>
                 else S1)"
    unfolding if_step [OF assms] if_end option.case print_block by simp
  from 1 2 3 4 5 6 7 8 show ?thesis by blast
qed

theorem C8_truthiness_witness:
  "evaluate exact_host (call_fuel exact_host 0) (UnaryExpression ''!'' (Literal (LNumber 0) 1) 1)
       new_Interpreter
     = Some (Inr (Bool False), new_Interpreter)
   \<and> evaluate exact_host (call_fuel exact_host 0) (UnaryExpression ''!'' (Literal LNull 1) 1)
       new_Interpreter
     = Some (Inr (Bool True), new_Interpreter)
   \<and> map_option (\<lambda>(r, S). (r, output_lines S))
       (executeStatement exact_host (call_fuel exact_host 0)
          (IfStatement [Literal (LNumber 0) 1] [[PrintStatement [Literal (LString ''A'') 1] 1]]
             (Some [PrintStatement [Literal (LString ''B'') 1] 1]) 1) new_Interpreter)
     = Some (Inr (), [''A''])
   \<and> map_option (\<lambda>(r, S). (r, output_lines S))
       (executeStatement exact_host (call_fuel exact_host 0)
          (IfStatement [Literal LNull 1] [[PrintStatement [Literal (LString ''A'') 1] 1]]
             (Some [PrintStatement [Literal (LString ''B'') 1] 1]) 1) new_Interpreter)
     = Some (Inr (), [''B''])
   \<and> map_option (\<lambda>(r, S). (r, output_lines S))
       (executeStatement exact_host (call_fuel exact_host 0)
          (IfStatement [Literal (LString []) 1] [[PrintStatement [Literal (LString ''A'') 1] 1]]
             None 1) new_Interpreter)
     = Some (Inr (), [''A''])
   \<and> map_option (\<lambda>(r, S). (r, output_lines S))
       (executeStatement exact_host (call_fuel exact_host 0)
          (IfStatement [Literal (LBool False) 1] [[PrintStatement [Literal (LString ''A'') 1] 1]]
             None 1) new_Interpreter)
     = Some (Inr (), [])
   \<and> map_option (\<lambda>(r, S). (r, output_lines S))
       (executeStatement exact_host (call_fuel exact_host 0)
          (IfStatement [Literal LNull 1, Literal (LNumber 0) 1]
             [[PrintStatement [Literal (LString ''A'') 1] 1],
              [PrintStatement [Literal (LString ''B'') 1] 1]]
             (Some [PrintStatement [Literal (LString ''C'') 1] 1]) 1) new_Interpreter)
     = Some (Inr (), [''B''])"
  using C8_truthiness [where host = exact_host and callf = "call_fuel exact_host 0"
            and e = "Literal (LNumber 0) 1" and S = new_Interpreter and v = "Number 0"
            and ?S1.0 = new_Interpreter]
        C8_truthiness [where host = exact_host and callf = "call_fuel exact_host 0"
            and e = "Literal LNull 1" and S = new_Interpreter and v = Null
            and ?S1.0 = new_Interpreter]
        C8_truthiness [where host = exact_host and callf = "call_fuel exact_host 0"
            and e = "Literal (LString []) 1" and S = new_Interpreter and v = "String []"
            and ?S1.0 = new_Interpreter]
        C8_truthiness [where host = exact_host and callf = "call_fuel exact_host 0"
            and e = "Literal (LBool False) 1" and S = new_Interpreter and v = "Bool False"
            and ?S1.0 = new_Interpreter]
  by (simp add: ireturn_def isTruthy_def new_Interpreter_def ibind_def stringify_def
        executeBlock_fresh_def executeBlock_def new_Environment_def)

end
